theory Spec2Isabelle
  imports Complex_Main "HOL-Library.AList" "HOL-Library.Log_Nat" "HOL-Library.Sublist" "HOL-Library.Char_ord"
    "HOL-Library.List_Lexorder"
begin

section \<open>Decoded annotation records\<close>

text \<open>
  \<^verbatim>\<open>runAll.py\<close> receives every record from \<^verbatim>\<open>json.load\<close>: a Python value built
  from \<^verbatim>\<open>None\<close>, booleans, numbers, strings, lists and dicts. A dict keeps its keys in
  insertion order, so it is an association list here. \<^verbatim>\<open>json.load\<close> gives an \<^verbatim>\<open>int\<close>
  of any size for an integer literal and a \<^verbatim>\<open>float\<close> for every other number: the
  literals \<^verbatim>\<open>NaN\<close>, \<^verbatim>\<open>Infinity\<close> and \<^verbatim>\<open>-Infinity\<close> are accepted, and a finite
  float is given here by the rational it denotes. A string is the sequence of the bytes
  of its UTF-8 encoding.
\<close>

datatype pyfloat = Finite rat | PosInf | NegInf | NaN

datatype json =
    JNull
  | JBool bool
  | JInt int
  | JFloat pyfloat
  | JStr string
  | JArr "json list"
  | JObj "(string \<times> json) list"

abbreviation JNum :: "rat \<Rightarrow> json" where
  "JNum x \<equiv> JFloat (Finite x)"

text \<open>
  The exceptions the code can raise: Python's \<^verbatim>\<open>KeyError\<close>, \<^verbatim>\<open>TypeError\<close> and
  \<^verbatim>\<open>OverflowError\<close> (an \<^verbatim>\<open>int\<close> that does not fit the 64 bits a driver has for
  it), the two errors of the \<^verbatim>\<open>sqlite3\<close> module (a value that cannot be bound, a
  statement that cannot be prepared), the \<^verbatim>\<open>Exception('Something went wrong with ...')\<close>
  of \<^verbatim>\<open>getOrCreateRow\<close>, the \<^verbatim>\<open>ClientError\<close> of the Neo4j driver, and the two errors
  of pymongo (an update and an aggregation that the server rejects). \<open>NotModelled\<close> is no
  exception of the program: it marks the inputs at which this model of the stores stops,
  each named where it is returned.
\<close>

datatype error =
    KeyError string
  | TypeError
  | OverflowError
  | InterfaceError
  | OperationalError
  | SomethingWentWrong "(string \<times> json) list"
  | ClientError
  | WriteError
  | OperationFailure
  | NotModelled

definition bindE :: "error + 'a \<Rightarrow> ('a \<Rightarrow> error + 'b) \<Rightarrow> error + 'b" where
  "bindE r f = (case r of Inl e \<Rightarrow> Inl e | Inr x \<Rightarrow> f x)"

text \<open>\<^verbatim>\<open>x[k]\<close> with a string key: only a dict can be subscripted by a string.\<close>

fun py_getitem :: "json \<Rightarrow> string \<Rightarrow> error + json" where
  "py_getitem (JObj kvs) k = (case map_of kvs k of None \<Rightarrow> Inl (KeyError k) | Some v \<Rightarrow> Inr v)"
| "py_getitem _ k = Inl TypeError"

fun is_substring :: "string \<Rightarrow> string \<Rightarrow> bool" where
  "is_substring k [] = (k = [])"
| "is_substring k (c # s) = (take (length k) (c # s) = k \<or> is_substring k s)"

text \<open>
  \<^verbatim>\<open>k in x\<close> with a string \<open>k\<close>: membership among the keys of a dict, among the
  elements of a list, substring test on a string, \<^verbatim>\<open>TypeError\<close> otherwise.
\<close>

fun py_contains :: "string \<Rightarrow> json \<Rightarrow> error + bool" where
  "py_contains k (JObj kvs) = Inr (k \<in> set (map fst kvs))"
| "py_contains k (JArr xs) = Inr (JStr k \<in> set xs)"
| "py_contains k (JStr s) = Inr (is_substring k s)"
| "py_contains k _ = Inl TypeError"

text \<open>
  \<^verbatim>\<open>for v in x\<close>: the elements of a list, the keys of a dict, the characters of a
  string; anything else is not iterable.
\<close>

fun py_iter :: "json \<Rightarrow> error + json list" where
  "py_iter (JArr xs) = Inr xs"
| "py_iter (JObj kvs) = Inr (map (\<lambda>kv. JStr (fst kv)) kvs)"
| "py_iter (JStr s) = Inr (map (\<lambda>c. JStr [c]) s)"
| "py_iter _ = Inl TypeError"


section \<open>The SQLite store\<close>

text \<open>
  A stored value is \<^verbatim>\<open>NULL\<close>, an integer, a real (never \<^verbatim>\<open>NaN\<close>) or a text. A table
  has its declared columns, each with its affinity (\<^verbatim>\<open>VARCHAR\<close> is text) and its
  \<^verbatim>\<open>DEFAULT\<close> (\<^verbatim>\<open>NULL\<close> when none is declared), and its rows in rowid order, which is
  the order of a table scan. The \<^verbatim>\<open>id INTEGER PRIMARY KEY\<close> column of every table is
  the rowid, kept in \<open>rid\<close>; \<^verbatim>\<open>insertImage\<close> never names it in a dict.
\<close>

datatype sqlval = SNull | SInt int | SReal pyfloat | SText string

datatype affinity = AText | AInteger | AReal

record row =
  rid :: nat
  cells :: "(string \<times> sqlval) list"

record table =
  columns :: "(string \<times> affinity \<times> sqlval) list"
  rows :: "row list"

type_synonym db = "(string \<times> table) list"

definition new_table :: "(string \<times> affinity \<times> sqlval) list \<Rightarrow> table" where
  "new_table cols = \<lparr>columns = cols, rows = []\<rparr>"

definition schema :: "(string \<times> table) list" where
  "schema =
    [(''image'', new_table [(''url'', AText, SNull), (''is_document'', AInteger, SInt 0)]),
     (''label'', new_table [(''mid'', AText, SNull), (''description'', AText, SNull)]),
     (''image_tagged_label'',
        new_table [(''image_id'', AInteger, SNull), (''label_id'', AInteger, SNull),
                   (''score'', AReal, SNull)]),
     (''page'', new_table [(''url'', AText, SNull)]),
     (''landmark'', new_table [(''mid'', AText, SNull), (''description'', AText, SNull)]),
     (''location'', new_table [(''latitude'', AReal, SNull), (''longitude'', AReal, SNull)]),
     (''web_entity'', new_table [(''entity_id'', AText, SNull), (''description'', AText, SNull)]),
     (''image_in_page'', new_table [(''image_id'', AInteger, SNull), (''page_id'', AInteger, SNull)]),
     (''image_matches_image'',
        new_table [(''image_id1'', AInteger, SNull), (''image_id2'', AInteger, SNull),
                   (''type'', AText, SNull)]),
     (''image_contains_landmark'',
        new_table [(''image_id'', AInteger, SNull), (''landmark_id'', AInteger, SNull),
                   (''score'', AReal, SNull)]),
     (''image_tagged_web_entity'',
        new_table [(''image_id'', AInteger, SNull), (''web_entity_id'', AInteger, SNull),
                   (''score'', AReal, SNull)]),
     (''landmark_located_at_location'',
        new_table [(''landmark_id'', AInteger, SNull), (''location_id'', AInteger, SNull)])]"

text \<open>
  \<^verbatim>\<open>createSchema(cursor)\<close> with its default \<^verbatim>\<open>clearDb=True\<close>: the twelve tables are
  dropped if they exist and created empty; any other table of the database stays.
\<close>

definition createSchema :: "db \<Rightarrow> db" where
  "createSchema d = schema @ filter (\<lambda>nt. fst nt \<notin> set (map fst schema)) d"

text \<open>
  What sqlite3 binds for a Python value: \<^verbatim>\<open>None\<close> and the float \<^verbatim>\<open>NaN\<close> as
  \<^verbatim>\<open>NULL\<close>, a boolean as 0 or 1, an \<^verbatim>\<open>int\<close> as a 64-bit integer
  (\<^verbatim>\<open>OverflowError\<close> when it does not fit), a float as a real, a string as a text; a
  list or a dict cannot be bound.
\<close>

fun bind_param :: "json \<Rightarrow> error + sqlval" where
  "bind_param JNull = Inr SNull"
| "bind_param (JBool b) = Inr (SInt (if b then 1 else 0))"
| "bind_param (JInt n) = (if - (2 ^ 63) \<le> n \<and> n < 2 ^ 63 then Inr (SInt n) else Inl OverflowError)"
| "bind_param (JFloat f) = Inr (if f = NaN then SNull else SReal f)"
| "bind_param (JStr s) = Inr (SText s)"
| "bind_param (JArr xs) = Inl InterfaceError"
| "bind_param (JObj kvs) = Inl InterfaceError"

fun bind_all :: "(string \<times> json) list \<Rightarrow> error + (string \<times> sqlval) list" where
  "bind_all [] = Inr []"
| "bind_all ((k, v) # kvs) =
     (case bind_param v of
        Inl e \<Rightarrow> Inl e
      | Inr s \<Rightarrow> (case bind_all kvs of Inl e \<Rightarrow> Inl e | Inr ss \<Rightarrow> Inr ((k, s) # ss)))"

text \<open>
  The double nearest to an integer (ties to the even mantissa): the 53 leading bits are
  kept. An integer of up to 53 bits is its own double.
\<close>

definition double_of_int :: "int \<Rightarrow> rat" where
  "double_of_int n =
     (let m = \<bar>n\<bar>; sh = nat (bitlen m - 53); q = m div 2 ^ sh; r = m mod 2 ^ sh
      in if sh = 0 then of_int n
         else of_int (sgn n *
                (if 2 ^ sh < 2 * r \<or> (2 * r = 2 ^ sh \<and> odd q) then q + 1 else q) * 2 ^ sh))"

text \<open>
  Column affinity. The model covers a value of the kind of its column: a text (or
  \<^verbatim>\<open>NULL\<close>) in a \<^verbatim>\<open>VARCHAR\<close> column, an integer in an \<^verbatim>\<open>INTEGER\<close> column, an integer
  or a real in a \<^verbatim>\<open>REAL\<close> column, where SQLite stores an integer as the nearest double.
  The conversions between numbers and texts that SQLite makes for a number in a
  \<^verbatim>\<open>VARCHAR\<close> column, a text in a numeric column, and a real in an \<^verbatim>\<open>INTEGER\<close> column
  are outside the model (\<open>fits\<close> is false).
\<close>

fun fits :: "affinity \<Rightarrow> sqlval \<Rightarrow> bool" where
  "fits a SNull = True"
| "fits AText (SText s) = True"
| "fits AInteger (SInt n) = True"
| "fits AReal (SInt n) = True"
| "fits AReal (SReal f) = True"
| "fits a v = False"

fun store_as :: "affinity \<Rightarrow> sqlval \<Rightarrow> sqlval" where
  "store_as AReal (SInt n) = SReal (Finite (double_of_int n))"
| "store_as a v = v"

text \<open>
  SQL's \<open>=\<close> in a \<^verbatim>\<open>WHERE\<close> clause: a comparison with \<^verbatim>\<open>NULL\<close> is never true, an
  integer and a real are compared by their exact values, a number is never equal to a
  text.
\<close>

fun sql_num :: "sqlval \<Rightarrow> pyfloat option" where
  "sql_num (SInt n) = Some (Finite (of_int n))"
| "sql_num (SReal f) = (if f = NaN then None else Some f)"
| "sql_num v = None"

definition sql_eq :: "sqlval \<Rightarrow> sqlval \<Rightarrow> bool" where
  "sql_eq a b =
     (case (a, b) of
        (SText s, SText t) \<Rightarrow> s = t
      | _ \<Rightarrow> sql_num a \<noteq> None \<and> sql_num a = sql_num b)"

definition cell :: "row \<Rightarrow> string \<Rightarrow> sqlval" where
  "cell r c = (case map_of (cells r) c of None \<Rightarrow> SNull | Some v \<Rightarrow> v)"

text \<open>\<^verbatim>\<open>WHERE "k1" = :k1 AND "k2" = :k2 ...\<close> on one row.\<close>

definition where_matches :: "(string \<times> sqlval) list \<Rightarrow> row \<Rightarrow> bool" where
  "where_matches binds r = list_all (\<lambda>kv. sql_eq (cell r (fst kv)) (snd kv)) binds"

text \<open>\<^verbatim>\<open>SELECT id FROM t WHERE ...\<close> followed by \<^verbatim>\<open>fetchone()\<close>.\<close>

definition select_id :: "table \<Rightarrow> (string \<times> sqlval) list \<Rightarrow> nat option" where
  "select_id t binds = map_option rid (List.find (where_matches binds) (rows t))"

definition next_rowid :: "row list \<Rightarrow> nat" where
  "next_rowid rs = Suc (fold max (map rid rs) 0)"

text \<open>
  \<^verbatim>\<open>INSERT INTO t (k1, k2, ...) values(:k1, :k2, ...)\<close>: the new row gets the next
  rowid, in every named column the bound value as the affinity of the column stores it,
  and the default in the others.
\<close>

definition insert_row :: "table \<Rightarrow> (string \<times> sqlval) list \<Rightarrow> table" where
  "insert_row t binds =
     t\<lparr>rows := rows t @
        [\<lparr>rid = next_rowid (rows t),
          cells = map (\<lambda>cd. (fst cd, case map_of binds (fst cd) of
                                        None \<Rightarrow> snd (snd cd)
                                      | Some v \<Rightarrow> store_as (fst (snd cd)) v))
                      (columns t)\<rparr>]\<rparr>"

text \<open>The values are of the kinds of their columns.\<close>

definition typed :: "table \<Rightarrow> (string \<times> sqlval) list \<Rightarrow> bool" where
  "typed t binds =
     list_all (\<lambda>kv. case map_of (columns t) (fst kv) of
                       None \<Rightarrow> False
                     | Some ad \<Rightarrow> fits (fst ad) (snd kv)) binds"

text \<open>
  A function that works on a store (the database as the cursor sees it here, the graph
  and the collection below) takes the store and returns its result, or the exception it
  raised, together with the store as it then is. What the cursor wrote before an
  exception is still there for the cursor; whether it reaches the database file is
  decided by the caller (\<open>main_sqlite\<close> below).
\<close>

type_synonym ('s, 'a) prog = "'s \<Rightarrow> (error + 'a) \<times> 's"

type_synonym 'a cur = "(db, 'a) prog"

definition lift :: "error + 'a \<Rightarrow> ('s, 'a) prog" where
  "lift r d = (r, d)"

definition bindC :: "('s, 'a) prog \<Rightarrow> ('a \<Rightarrow> ('s, 'b) prog) \<Rightarrow> ('s, 'b) prog" where
  "bindC m f d = (case m d of (Inl e, d') \<Rightarrow> (Inl e, d') | (Inr x, d') \<Rightarrow> f x d')"

fun for_each :: "'a list \<Rightarrow> ('a \<Rightarrow> ('s, unit) prog) \<Rightarrow> ('s, unit) prog" where
  "for_each [] f d = (Inr (), d)"
| "for_each (x # xs) f d =
     (case f x d of (Inl e, d') \<Rightarrow> (Inl e, d') | (Inr u, d') \<Rightarrow> for_each xs f d')"

text \<open>
  \<^verbatim>\<open>getOrCreateRow(cursor, table, dataDict)\<close>. Preparing the \<^verbatim>\<open>SELECT\<close> fails on an
  unknown table or column (and on an empty dict, whose \<^verbatim>\<open>WHERE\<close> clause is empty),
  binding fails on a list or dict value and on an \<^verbatim>\<open>int\<close> beyond 64 bits; then the row
  is looked up, inserted when the lookup finds nothing, and looked up again.
\<close>

definition getOrCreateRow :: "string \<Rightarrow> (string \<times> json) list \<Rightarrow> nat cur" where
  "getOrCreateRow tname dataDict d =
     (case map_of d tname of
        None \<Rightarrow> (Inl OperationalError, d)
      | Some t \<Rightarrow>
          if dataDict = [] \<or> \<not> list_all (\<lambda>k. k \<in> set (map fst (columns t))) (map fst dataDict)
          then (Inl OperationalError, d)
          else
            (case bind_all dataDict of
               Inl e \<Rightarrow> (Inl e, d)
             | Inr binds \<Rightarrow>
                 if \<not> typed t binds then (Inl NotModelled, d)
                 else
                   (case select_id t binds of
                      Some i \<Rightarrow> (Inr i, d)
                    | None \<Rightarrow>
                        (let t' = insert_row t binds; d' = AList.update tname t' d
                         in case select_id t' binds of
                              Some i \<Rightarrow> (Inr i, d')
                            | None \<Rightarrow> (Inl (SomethingWentWrong dataDict), d')))))"


section \<open>Ingestion into SQLite\<close>

definition id_val :: "nat \<Rightarrow> json" where
  "id_val i = JInt (int i)"

text \<open>\<^verbatim>\<open>x[k1][k2]\<close>.\<close>

definition getitem2 :: "json \<Rightarrow> string \<Rightarrow> string \<Rightarrow> error + json" where
  "getitem2 x k1 k2 = bindE (py_getitem x k1) (\<lambda>y. py_getitem y k2)"

text \<open>
  \<^verbatim>\<open>if 'description' in x: desc = x['description']\<close>, \<^verbatim>\<open>else: desc = ''\<close>.
\<close>

definition description_or_empty :: "json \<Rightarrow> error + json" where
  "description_or_empty x =
     bindE (py_contains ''description'' x)
       (\<lambda>b. if b then py_getitem x ''description'' else Inr (JStr []))"

text \<open>The body of the loop over \<^verbatim>\<open>labelAnnotations\<close>.\<close>

definition insertLabel :: "nat \<Rightarrow> json \<Rightarrow> unit cur" where
  "insertLabel imageId ann =
     bindC (lift (py_getitem ann ''mid'')) (\<lambda>mid.
     bindC (lift (py_getitem ann ''description'')) (\<lambda>desc.
     bindC (getOrCreateRow ''label'' [(''mid'', mid), (''description'', desc)]) (\<lambda>labelId.
     bindC (lift (py_getitem ann ''score'')) (\<lambda>score.
     bindC (getOrCreateRow ''image_tagged_label''
              [(''image_id'', id_val imageId), (''label_id'', id_val labelId), (''score'', score)])
       (\<lambda>ltiId. lift (Inr ()))))))"

text \<open>
  The body of the loops over \<^verbatim>\<open>fullMatchingImages\<close> and \<^verbatim>\<open>partialMatchingImages\<close>;
  \<open>ty\<close> is \<^verbatim>\<open>'full'\<close> or \<^verbatim>\<open>'partial'\<close>.
\<close>

definition insertMatch :: "nat \<Rightarrow> string \<Rightarrow> json \<Rightarrow> unit cur" where
  "insertMatch imageId ty m =
     bindC (lift (py_getitem m ''url'')) (\<lambda>url.
     bindC (getOrCreateRow ''image'' [(''url'', url)]) (\<lambda>imageId2.
     bindC (getOrCreateRow ''image_matches_image''
              [(''image_id1'', id_val imageId), (''image_id2'', id_val imageId2),
               (''type'', JStr ty)])
       (\<lambda>imiId. lift (Inr ()))))"

text \<open>The body of the loop over \<^verbatim>\<open>pagesWithMatchingImages\<close>.\<close>

definition insertPage :: "nat \<Rightarrow> json \<Rightarrow> unit cur" where
  "insertPage imageId pmi =
     bindC (lift (py_getitem pmi ''url'')) (\<lambda>url.
     bindC (getOrCreateRow ''page'' [(''url'', url)]) (\<lambda>pageId.
     bindC (getOrCreateRow ''image_in_page''
              [(''image_id'', id_val imageId), (''page_id'', id_val pageId)])
       (\<lambda>iipId. lift (Inr ()))))"

text \<open>The body of the loop over \<^verbatim>\<open>webEntities\<close>.\<close>

definition insertWebEntity :: "nat \<Rightarrow> json \<Rightarrow> unit cur" where
  "insertWebEntity imageId ent =
     bindC (lift (description_or_empty ent)) (\<lambda>desc.
     bindC (lift (py_getitem ent ''entityId'')) (\<lambda>entityId.
     bindC (getOrCreateRow ''web_entity'' [(''entity_id'', entityId), (''description'', desc)])
       (\<lambda>webEntityId.
     bindC (lift (py_getitem ent ''score'')) (\<lambda>score.
     bindC (getOrCreateRow ''image_tagged_web_entity''
              [(''image_id'', id_val imageId), (''web_entity_id'', id_val webEntityId),
               (''score'', score)])
       (\<lambda>iteId. lift (Inr ()))))))"

text \<open>The body of the loop over the \<^verbatim>\<open>locations\<close> of one landmark.\<close>

definition insertLocation :: "nat \<Rightarrow> json \<Rightarrow> unit cur" where
  "insertLocation landmarkId loc =
     bindC (lift (getitem2 loc ''latLng'' ''latitude'')) (\<lambda>lat.
     bindC (lift (getitem2 loc ''latLng'' ''longitude'')) (\<lambda>lng.
     bindC (getOrCreateRow ''location'' [(''latitude'', lat), (''longitude'', lng)])
       (\<lambda>locationId.
     bindC (getOrCreateRow ''landmark_located_at_location''
              [(''landmark_id'', id_val landmarkId), (''location_id'', id_val locationId)])
       (\<lambda>lllId. lift (Inr ())))))"

text \<open>The body of the loop over \<^verbatim>\<open>landmarkAnnotations\<close>.\<close>

definition insertLandmark :: "nat \<Rightarrow> json \<Rightarrow> unit cur" where
  "insertLandmark imageId lma =
     bindC (lift (description_or_empty lma)) (\<lambda>desc.
     bindC (lift (py_getitem lma ''mid'')) (\<lambda>mid.
     bindC (getOrCreateRow ''landmark'' [(''mid'', mid), (''description'', desc)])
       (\<lambda>landmarkId.
     bindC (lift (py_getitem lma ''score'')) (\<lambda>score.
     bindC (getOrCreateRow ''image_contains_landmark''
              [(''image_id'', id_val imageId), (''landmark_id'', id_val landmarkId),
               (''score'', score)])
       (\<lambda>iclId.
     bindC (lift (bindE (py_getitem lma ''locations'') py_iter)) (\<lambda>locs.
       for_each locs (insertLocation landmarkId)))))))"

text \<open>\<^verbatim>\<open>for v in x[k1][k2]: body\<close>.\<close>

definition for_in2 :: "json \<Rightarrow> string \<Rightarrow> string \<Rightarrow> (json \<Rightarrow> unit cur) \<Rightarrow> unit cur" where
  "for_in2 x k1 k2 body =
     bindC (lift (bindE (getitem2 x k1 k2) py_iter)) (\<lambda>vs. for_each vs body)"

text \<open>\<^verbatim>\<open>for v in x[k1][k2][k3]: body\<close>.\<close>

definition for_in3 ::
  "json \<Rightarrow> string \<Rightarrow> string \<Rightarrow> string \<Rightarrow> (json \<Rightarrow> unit cur) \<Rightarrow> unit cur" where
  "for_in3 x k1 k2 k3 body =
     bindC (lift (bindE (bindE (getitem2 x k1 k2) (\<lambda>y. py_getitem y k3)) py_iter))
       (\<lambda>vs. for_each vs body)"

text \<open>\<^verbatim>\<open>if k3 in x[k1][k2]: for v in x[k1][k2][k3]: body\<close>.\<close>

definition if_in_for ::
  "json \<Rightarrow> string \<Rightarrow> string \<Rightarrow> string \<Rightarrow> (json \<Rightarrow> unit cur) \<Rightarrow> unit cur" where
  "if_in_for x k1 k2 k3 body =
     bindC (lift (bindE (getitem2 x k1 k2) (py_contains k3))) (\<lambda>b.
       if b then for_in3 x k1 k2 k3 body else lift (Inr ()))"

definition insertImage :: "json \<Rightarrow> unit cur" where
  "insertImage jsonData =
     bindC (lift (py_getitem jsonData ''url'')) (\<lambda>url.
     bindC (getOrCreateRow ''image'' [(''url'', url), (''is_document'', JInt 1)]) (\<lambda>imageId.
     bindC (for_in2 jsonData ''response'' ''labelAnnotations'' (insertLabel imageId)) (\<lambda>u1.
     bindC (if_in_for jsonData ''response'' ''webDetection'' ''fullMatchingImages''
              (insertMatch imageId ''full'')) (\<lambda>u2.
     bindC (if_in_for jsonData ''response'' ''webDetection'' ''partialMatchingImages''
              (insertMatch imageId ''partial'')) (\<lambda>u3.
     bindC (if_in_for jsonData ''response'' ''webDetection'' ''pagesWithMatchingImages''
              (insertPage imageId)) (\<lambda>u4.
     bindC (for_in3 jsonData ''response'' ''webDetection'' ''webEntities''
              (insertWebEntity imageId)) (\<lambda>u5.
     bindC (lift (bindE (py_getitem jsonData ''response'') (py_contains ''landmarkAnnotations'')))
       (\<lambda>b.
       if b
       then for_in2 jsonData ''response'' ''landmarkAnnotations'' (insertLandmark imageId)
       else lift (Inr ())))))))))"

text \<open>
  \<^verbatim>\<open>populateSqlite\<close>: the records are the decoded files in the order \<^verbatim>\<open>glob\<close> lists
  them. There is no \<^verbatim>\<open>try\<close> around \<^verbatim>\<open>insertImage\<close>: the first exception ends the
  loop. The result is \<^verbatim>\<open>cnt\<close>, the number the function prints.
\<close>

fun populateSqlite_from :: "nat \<Rightarrow> json list \<Rightarrow> nat cur" where
  "populateSqlite_from cnt [] d = (Inr cnt, d)"
| "populateSqlite_from cnt (jsonData # rest) d =
     (case insertImage jsonData d of
        (Inl e, d') \<Rightarrow> (Inl e, d')
      | (Inr u, d') \<Rightarrow> populateSqlite_from (cnt + 1) rest d')"

definition populateSqlite :: "json list \<Rightarrow> nat cur" where
  "populateSqlite jsonFiles = populateSqlite_from 0 jsonFiles"

text \<open>
  The SQLite part of \<^verbatim>\<open>main\<close> (\<^verbatim>\<open>doSQLite\<close> and \<^verbatim>\<open>loadData\<close> are \<^verbatim>\<open>True\<close>), as it
  changes the database file. The \<^verbatim>\<open>DROP TABLE\<close> and \<^verbatim>\<open>CREATE TABLE\<close> statements of
  \<^verbatim>\<open>createSchema\<close> run outside a transaction and are in the file at once. sqlite3 opens
  a transaction before the first \<^verbatim>\<open>INSERT\<close>, and the only \<^verbatim>\<open>connection.commit()\<close> is
  the one after \<^verbatim>\<open>querySqlite\<close>, which only reads: when \<^verbatim>\<open>populateSqlite\<close> returns,
  what the cursor has written goes to the file; when it raises, the exception leaves
  \<^verbatim>\<open>main\<close> before the commit and the file keeps what it had when the transaction began,
  the empty tables.
\<close>

definition main_sqlite :: "json list \<Rightarrow> db \<Rightarrow> (error + nat) \<times> db" where
  "main_sqlite jsonFiles dbfile =
     (case populateSqlite jsonFiles (createSchema dbfile) of
        (Inl e, uncommitted) \<Rightarrow> (Inl e, createSchema dbfile)
      | (Inr cnt, written) \<Rightarrow> (Inr cnt, written))"

section \<open>How ingestion changes the store\<close>

text \<open>
  A database extends another when it has the same tables with the same columns and
  every table has the rows it had, in place, followed by zero or more new rows.
\<close>

definition table_extends :: "table option \<Rightarrow> table option \<Rightarrow> bool" where
  "table_extends a b =
     (case a of
        None \<Rightarrow> b = None
      | Some t \<Rightarrow>
          (case b of
             None \<Rightarrow> False
           | Some t' \<Rightarrow> columns t' = columns t \<and> prefix (rows t) (rows t')))"

definition extends :: "db \<Rightarrow> db \<Rightarrow> bool" where
  "extends d d' = (\<forall>n. table_extends (map_of d n) (map_of d' n))"

text \<open>A relation between the store before and after holds of every run of \<open>m\<close>.\<close>

definition keeps :: "('s \<Rightarrow> 's \<Rightarrow> bool) \<Rightarrow> ('s, 'a) prog \<Rightarrow> bool" where
  "keeps R m = (\<forall>d. R d (snd (m d)))"

text \<open>
  A run of \<open>m\<close> that did not end in an exception of the kind \<open>bad\<close> moved the store
  along the relation \<open>E\<close>, and run again on any store further along \<open>E\<close> it has the
  same outcome and changes nothing.
\<close>

definition good :: "(error \<Rightarrow> bool) \<Rightarrow> error + 'a \<Rightarrow> bool" where
  "good bad r = (case r of Inl e \<Rightarrow> \<not> bad e | Inr x \<Rightarrow> True)"

definition replays :: "('s \<Rightarrow> 's \<Rightarrow> bool) \<Rightarrow> (error \<Rightarrow> bool) \<Rightarrow> ('s, 'a) prog \<Rightarrow> bool" where
  "replays E bad m =
     (\<forall>d r d'. m d = (r, d') \<and> good bad r \<longrightarrow>
        E d d' \<and> (\<forall>d''. E d' d'' \<longrightarrow> m d'' = (r, d'')))"

text \<open>The exception of \<^verbatim>\<open>getOrCreateRow\<close>'s last line.\<close>

fun is_sww :: "error \<Rightarrow> bool" where
  "is_sww (SomethingWentWrong x) = True"
| "is_sww e = False"

section \<open>Values in Neo4j and MongoDB\<close>

text \<open>
  Both servers compare an integer and a float by the numbers they denote: \<open>canon\<close>
  writes every integer as that number, inside lists and maps too. Both drivers have 64
  bits for an integer and raise \<^verbatim>\<open>OverflowError\<close> when they encode a larger one.
\<close>

fun canon :: "json \<Rightarrow> json" where
  "canon (JInt n) = JFloat (Finite (of_int n))"
| "canon (JArr xs) = JArr (map canon xs)"
| "canon (JObj kvs) = JObj (map (\<lambda>kv. (fst kv, canon (snd kv))) kvs)"
| "canon x = x"

fun int64s :: "json \<Rightarrow> bool" where
  "int64s (JInt n) = (- (2 ^ 63) \<le> n \<and> n < 2 ^ 63)"
| "int64s (JArr xs) = list_all int64s xs"
| "int64s (JObj kvs) = list_all (\<lambda>kv. int64s (snd kv)) kvs"
| "int64s x = True"

fun has_nan :: "json \<Rightarrow> bool" where
  "has_nan (JFloat f) = (f = NaN)"
| "has_nan (JArr xs) = list_ex has_nan xs"
| "has_nan (JObj kvs) = list_ex (\<lambda>kv. has_nan (snd kv)) kvs"
| "has_nan x = False"

text \<open>A list that holds an integer and a float.\<close>

fun mixes_numbers :: "json \<Rightarrow> bool" where
  "mixes_numbers (JArr xs) =
     (list_ex (\<lambda>x. case x of JInt n \<Rightarrow> True | _ \<Rightarrow> False) xs \<and>
      list_ex (\<lambda>x. case x of JFloat f \<Rightarrow> True | _ \<Rightarrow> False) xs \<or>
      list_ex mixes_numbers xs)"
| "mixes_numbers (JObj kvs) = list_ex (\<lambda>kv. mixes_numbers (snd kv)) kvs"
| "mixes_numbers x = False"


section \<open>The Neo4j store\<close>

text \<open>
  The graph: nodes with one label and their properties, relationships with a type, their
  properties and the ids of their two ends. \<^verbatim>\<open>populateNeo4j\<close> passes the decoded record
  as the parameter \<^verbatim>\<open>$json\<close>, so the values of Cypher are the values of the record: a
  dict is a map, \<^verbatim>\<open>None\<close> is \<^verbatim>\<open>null\<close>.
\<close>

record node =
  nid :: nat
  nlabel :: string
  nprops :: "(string \<times> json) list"

record relationship =
  rsrc :: nat
  rtype :: string
  rprops :: "(string \<times> json) list"
  rdst :: nat

record graph =
  nodes :: "node list"
  rels :: "relationship list"

text \<open>
  \<^verbatim>\<open>x.k\<close>: the entry of a map, \<^verbatim>\<open>null\<close> when the map has no such key or \<open>x\<close> is
  \<^verbatim>\<open>null\<close>; a type error on any other value.
\<close>

fun cy_prop :: "json \<Rightarrow> string \<Rightarrow> error + json" where
  "cy_prop (JObj kvs) k = Inr (case map_of kvs k of None \<Rightarrow> JNull | Some v \<Rightarrow> v)"
| "cy_prop JNull k = Inr JNull"
| "cy_prop _ k = Inl ClientError"

fun cy_path :: "json \<Rightarrow> string list \<Rightarrow> error + json" where
  "cy_path x [] = Inr x"
| "cy_path x (k # ks) = bindE (cy_prop x k) (\<lambda>y. cy_path y ks)"

text \<open>The list a \<^verbatim>\<open>FOREACH\<close> runs over: \<^verbatim>\<open>null\<close> is the empty list.\<close>

fun cy_list :: "json \<Rightarrow> error + json list" where
  "cy_list (JArr xs) = Inr xs"
| "cy_list JNull = Inr []"
| "cy_list _ = Inl ClientError"

text \<open>\<^verbatim>\<open>COALESCE(x, '')\<close>.\<close>

definition coalesce_empty :: "json \<Rightarrow> json" where
  "coalesce_empty x = (if x = JNull then JStr [] else x)"

text \<open>
  A property holds a boolean, an integer, a float, a string, or a list of values of one
  of these kinds; a map, \<^verbatim>\<open>null\<close> and a mixed or nested list cannot be stored.
\<close>

fun primitive_kind :: "json \<Rightarrow> nat option" where
  "primitive_kind (JBool b) = Some 0"
| "primitive_kind (JInt n) = Some 1"
| "primitive_kind (JFloat f) = Some 2"
| "primitive_kind (JStr s) = Some 3"
| "primitive_kind _ = None"

fun storable :: "json \<Rightarrow> bool" where
  "storable (JArr xs) =
     list_all (\<lambda>x. primitive_kind x \<noteq> None \<and> primitive_kind x = primitive_kind (hd xs)) xs"
| "storable x = (primitive_kind x \<noteq> None)"

text \<open>\<^verbatim>\<open>SET n.k = v\<close> for each pair: \<^verbatim>\<open>null\<close> removes the property.\<close>

definition set_props :: "(string \<times> json) list \<Rightarrow> (string \<times> json) list \<Rightarrow> (string \<times> json) list" where
  "set_props sets ps =
     fold (\<lambda>kv qs. if snd kv = JNull then AList.delete (fst kv) qs
                    else AList.update (fst kv) (snd kv) qs) sets ps"

definition settable :: "(string \<times> json) list \<Rightarrow> bool" where
  "settable sets = list_all (\<lambda>kv. snd kv = JNull \<or> storable (snd kv)) sets"

text \<open>
  Cypher's \<open>=\<close> between a stored property and a value of the query: numbers by what they
  denote, and nothing is equal to \<^verbatim>\<open>NaN\<close>, not even \<^verbatim>\<open>NaN\<close>.
\<close>

definition cy_eq :: "json \<Rightarrow> json \<Rightarrow> bool" where
  "cy_eq a b = (\<not> has_nan a \<and> \<not> has_nan b \<and> canon a = canon b)"

definition has_props :: "(string \<times> json) list \<Rightarrow> (string \<times> json) list \<Rightarrow> bool" where
  "has_props ps pat =
     list_all (\<lambda>kv. case map_of ps (fst kv) of None \<Rightarrow> False | Some w \<Rightarrow> cy_eq w (snd kv)) pat"

definition node_matches :: "string \<Rightarrow> (string \<times> json) list \<Rightarrow> node \<Rightarrow> bool" where
  "node_matches l pat n = (nlabel n = l \<and> has_props (nprops n) pat)"

definition fresh_id :: "node list \<Rightarrow> nat" where
  "fresh_id ns = Suc (fold max (map nid ns) 0)"

text \<open>
  \<^verbatim>\<open>MERGE (n:l {pat}) ON CREATE SET on_create ON MATCH SET on_match\<close>. A \<^verbatim>\<open>null\<close> in
  the pattern is an error. The clause binds \<open>n\<close> to every node with the label and the
  properties of the pattern, after setting the \<^verbatim>\<open>ON MATCH\<close> properties on each; when
  there is none it creates one with the pattern's properties and the \<^verbatim>\<open>ON CREATE\<close>
  ones. The result is the ids of the nodes bound.
\<close>

definition merge_node ::
  "string \<Rightarrow> (string \<times> json) list \<Rightarrow> (string \<times> json) list \<Rightarrow> (string \<times> json) list
     \<Rightarrow> (graph, nat list) prog" where
  "merge_node l pat on_create on_match g =
     (if list_ex (\<lambda>kv. snd kv = JNull) pat then (Inl ClientError, g)
      else
        (case filter (node_matches l pat) (nodes g) of
           [] \<Rightarrow>
             if list_all (\<lambda>kv. storable (snd kv)) pat \<and> settable on_create
             then (Inr [fresh_id (nodes g)],
                   g\<lparr>nodes := nodes g @
                      [\<lparr>nid = fresh_id (nodes g), nlabel = l,
                        nprops = set_props on_create pat\<rparr>]\<rparr>)
             else (Inl ClientError, g)
         | m # ms \<Rightarrow>
             if settable on_match
             then (Inr (map nid (m # ms)),
                   g\<lparr>nodes := map (\<lambda>n. if node_matches l pat n
                                         then n\<lparr>nprops := set_props on_match (nprops n)\<rparr>
                                         else n) (nodes g)\<rparr>)
             else (Inl ClientError, g)))"

definition rel_matches :: "nat \<Rightarrow> string \<Rightarrow> (string \<times> json) list \<Rightarrow> nat \<Rightarrow> relationship \<Rightarrow> bool" where
  "rel_matches a t pat b r =
     (rsrc r = a \<and> rdst r = b \<and> rtype r = t \<and> has_props (rprops r) pat)"

text \<open>
  \<^verbatim>\<open>MERGE (a)-[:t {pat}]->(b)\<close> with both ends bound: nothing changes when such a
  relationship exists, otherwise one is created.
\<close>

definition merge_rel :: "nat \<Rightarrow> string \<Rightarrow> (string \<times> json) list \<Rightarrow> nat \<Rightarrow> (graph, unit) prog" where
  "merge_rel a t pat b g =
     (if list_ex (\<lambda>kv. snd kv = JNull) pat then (Inl ClientError, g)
      else if list_ex (rel_matches a t pat b) (rels g) then (Inr (), g)
      else if list_all (\<lambda>kv. storable (snd kv)) pat
      then (Inr (), g\<lparr>rels := rels g @ [\<lparr>rsrc = a, rtype = t, rprops = pat, rdst = b\<rparr>]\<rparr>)
      else (Inl ClientError, g))"


section \<open>Ingestion into Neo4j\<close>

text \<open>
  \<^verbatim>\<open>insertQuery\<close>, clause by clause. Each \<^verbatim>\<open>FOREACH\<close> runs for every node \<open>img\<close> that
  the first \<^verbatim>\<open>MERGE\<close> bound, and inside it every \<^verbatim>\<open>MERGE\<close> of a relationship runs
  for every node that the \<^verbatim>\<open>MERGE\<close> before it bound.
\<close>

text \<open>\<^verbatim>\<open>FOREACH (ann in q.response.labelAnnotations | ...)\<close>, for one \<open>ann\<close>.\<close>

definition foreach_label :: "nat \<Rightarrow> json \<Rightarrow> (graph, unit) prog" where
  "foreach_label img ann =
     bindC (lift (cy_prop ann ''mid'')) (\<lambda>mid.
     bindC (lift (cy_prop ann ''description'')) (\<lambda>desc.
     bindC (merge_node ''Label'' [(''mid'', mid)] [(''description'', desc)] []) (\<lambda>lbls.
     bindC (lift (cy_prop ann ''score'')) (\<lambda>score.
       for_each lbls (\<lambda>lbl. merge_rel img ''TAGGED'' [(''score'', score)] lbl)))))"

text \<open>
  The two \<^verbatim>\<open>FOREACH\<close> over \<^verbatim>\<open>fullMatchingImages\<close> and \<^verbatim>\<open>partialMatchingImages\<close>, for
  one element; \<open>ty\<close> is \<^verbatim>\<open>'full'\<close> or \<^verbatim>\<open>'partial'\<close>.
\<close>

definition foreach_match :: "string \<Rightarrow> nat \<Rightarrow> json \<Rightarrow> (graph, unit) prog" where
  "foreach_match ty img fmi =
     bindC (lift (cy_prop fmi ''url'')) (\<lambda>url.
     bindC (merge_node ''Image'' [(''url'', url)] [(''isDocument'', JStr ''false'')] []) (\<lambda>img2s.
       for_each img2s (\<lambda>img2. merge_rel img ''MATCH'' [(''type'', JStr ty)] img2)))"

text \<open>\<^verbatim>\<open>FOREACH (web in q.response.webDetection.webEntities | ...)\<close>, for one \<open>web\<close>.\<close>

definition foreach_webEntity :: "nat \<Rightarrow> json \<Rightarrow> (graph, unit) prog" where
  "foreach_webEntity img web =
     bindC (lift (cy_prop web ''entityId'')) (\<lambda>entityId.
     bindC (lift (cy_prop web ''description'')) (\<lambda>desc.
     bindC (merge_node ''WebEntity'' [(''entityId'', entityId)]
              [(''description'', coalesce_empty desc)] []) (\<lambda>ents.
     bindC (lift (cy_prop web ''score'')) (\<lambda>score.
       for_each ents (\<lambda>ent. merge_rel img ''TAGGED'' [(''score'', score)] ent)))))"

text \<open>\<^verbatim>\<open>FOREACH (pmi in q.response.webDetection.pagesWithMatchingImages | ...)\<close>.\<close>

definition foreach_page :: "nat \<Rightarrow> json \<Rightarrow> (graph, unit) prog" where
  "foreach_page img pmi =
     bindC (lift (cy_prop pmi ''url'')) (\<lambda>url.
     bindC (merge_node ''Page'' [(''url'', url)] [] []) (\<lambda>pags.
       for_each pags (\<lambda>pag. merge_rel img ''IN'' [] pag)))"

text \<open>\<^verbatim>\<open>FOREACH (loc in lma.locations | ...)\<close>, for one \<open>loc\<close> and one landmark node.\<close>

definition foreach_location :: "nat \<Rightarrow> json \<Rightarrow> (graph, unit) prog" where
  "foreach_location lan loc =
     bindC (lift (cy_path loc [''latLng'', ''latitude''])) (\<lambda>lat.
     bindC (lift (cy_path loc [''latLng'', ''longitude''])) (\<lambda>lng.
     bindC (merge_node ''Location'' [(''latitude'', lat), (''longitude'', lng)] [] []) (\<lambda>lcts.
       for_each lcts (\<lambda>lct. merge_rel lan ''LOCATED_AT'' [] lct))))"

text \<open>\<^verbatim>\<open>FOREACH (lma in q.response.landmarkAnnotations | ...)\<close>, for one \<open>lma\<close>.\<close>

definition foreach_landmark :: "nat \<Rightarrow> json \<Rightarrow> (graph, unit) prog" where
  "foreach_landmark img lma =
     bindC (lift (cy_prop lma ''mid'')) (\<lambda>mid.
     bindC (lift (cy_prop lma ''description'')) (\<lambda>desc.
     bindC (merge_node ''Landmark'' [(''mid'', mid), (''description'', coalesce_empty desc)] [] [])
       (\<lambda>lans.
     bindC (lift (cy_prop lma ''score'')) (\<lambda>score.
     bindC (for_each lans (\<lambda>lan. merge_rel img ''CONTAINS'' [(''score'', score)] lan)) (\<lambda>u.
     bindC (lift (bindE (cy_prop lma ''locations'') cy_list)) (\<lambda>locs.
       for_each lans (\<lambda>lan. for_each locs (foreach_location lan))))))))"

text \<open>One \<^verbatim>\<open>FOREACH\<close> clause: the list at \<open>path\<close>, for every binding of \<open>img\<close>.\<close>

definition foreach_clause ::
  "json \<Rightarrow> string list \<Rightarrow> (nat \<Rightarrow> json \<Rightarrow> (graph, unit) prog) \<Rightarrow> nat list \<Rightarrow> (graph, unit) prog" where
  "foreach_clause q path body imgs =
     for_each imgs (\<lambda>img.
       bindC (lift (bindE (cy_path q path) cy_list)) (\<lambda>xs. for_each xs (body img)))"

definition insertQuery :: "json \<Rightarrow> (graph, unit) prog" where
  "insertQuery q =
     bindC (lift (cy_prop q ''url'')) (\<lambda>url.
     bindC (merge_node ''Image'' [(''url'', url)]
              [(''isDocument'', JStr ''true'')] [(''isDocument'', JStr ''true'')]) (\<lambda>imgs.
     bindC (foreach_clause q [''response'', ''labelAnnotations''] foreach_label imgs) (\<lambda>u1.
     bindC (foreach_clause q [''response'', ''webDetection'', ''fullMatchingImages'']
              (foreach_match ''full'') imgs) (\<lambda>u2.
     bindC (foreach_clause q [''response'', ''webDetection'', ''partialMatchingImages'']
              (foreach_match ''partial'') imgs) (\<lambda>u3.
     bindC (foreach_clause q [''response'', ''webDetection'', ''webEntities'']
              foreach_webEntity imgs) (\<lambda>u4.
     bindC (foreach_clause q [''response'', ''webDetection'', ''pagesWithMatchingImages'']
              foreach_page imgs) (\<lambda>u5.
       foreach_clause q [''response'', ''landmarkAnnotations''] foreach_landmark imgs)))))))"

text \<open>
  \<^verbatim>\<open>session.run(insertQuery, {'json': jsonData})\<close>: the driver encodes the record, and
  the query runs as one transaction, which an error undoes. A record with a list that
  mixes integers and floats is outside the model: Neo4j stores lists of one kind only.
\<close>

definition session_run :: "json \<Rightarrow> (graph, unit) prog" where
  "session_run jsonData g =
     (if \<not> int64s jsonData then (Inl OverflowError, g)
      else if mixes_numbers jsonData then (Inl NotModelled, g)
      else (case insertQuery jsonData g of (Inl e, g') \<Rightarrow> (Inl e, g) | (Inr u, g') \<Rightarrow> (Inr u, g')))"

text \<open>
  The loop of \<^verbatim>\<open>populateNeo4j\<close>: a \<^verbatim>\<open>ClientError\<close> is caught and the loop goes on,
  any other exception ends it; the result is \<^verbatim>\<open>loaded\<close>.
\<close>

fun populateNeo4j_from :: "nat \<Rightarrow> json list \<Rightarrow> (graph, nat) prog" where
  "populateNeo4j_from loaded [] g = (Inr loaded, g)"
| "populateNeo4j_from loaded (jsonData # rest) g =
     (case session_run jsonData g of
        (Inl e, g') \<Rightarrow>
          if e = ClientError then populateNeo4j_from loaded rest g' else (Inl e, g')
      | (Inr u, g') \<Rightarrow> populateNeo4j_from (loaded + 1) rest g')"

definition empty_graph :: graph where
  "empty_graph = \<lparr>nodes = [], rels = []\<rparr>"

text \<open>
  \<^verbatim>\<open>populateNeo4j(jsonDir, clearDb)\<close>. With \<^verbatim>\<open>clearDb\<close> (\<^verbatim>\<open>main\<close> passes \<^verbatim>\<open>True\<close>,
  the default is \<^verbatim>\<open>False\<close>) \<^verbatim>\<open>deleteQuery\<close> runs first: it deletes the first 50000
  pairs of a node and one of its relationships (a node without relationship is one
  pair). A graph has at most one pair for each node and two for each relationship; when
  that bound is within 50000 everything is deleted, and a larger graph is outside the
  model.
\<close>

definition populateNeo4j :: "json list \<Rightarrow> bool \<Rightarrow> (graph, nat) prog" where
  "populateNeo4j jsonFiles clearDb g =
     (if clearDb
      then (if int (length (nodes g)) + 2 * int (length (rels g)) \<le> 50000
            then populateNeo4j_from 0 jsonFiles empty_graph
            else (Inl NotModelled, g))
      else populateNeo4j_from 0 jsonFiles g)"

section \<open>The MongoDB store\<close>

text \<open>
  The collection \<^verbatim>\<open>googleTagged\<close>: its documents in natural order, each with the
  \<^verbatim>\<open>_id\<close> the server gave it (kept in \<open>oid\<close>) and its other fields.
\<close>

record document =
  oid :: nat
  doc_fields :: "(string \<times> json) list"

type_synonym collection = "document list"

text \<open>
  MongoDB's equality of two values: numbers by what they denote, \<^verbatim>\<open>NaN\<close> equal to
  itself, documents field by field in their order.
\<close>

definition mg_same :: "json \<Rightarrow> json \<Rightarrow> bool" where
  "mg_same a b = (canon a = canon b)"

text \<open>
  The filter \<^verbatim>\<open>{'url': u}\<close> on one document: the field equals \<open>u\<close>, or it is an array
  with an element equal to \<open>u\<close>; a missing field matches \<^verbatim>\<open>None\<close>.
\<close>

definition url_matches :: "json \<Rightarrow> document \<Rightarrow> bool" where
  "url_matches u doc =
     (case map_of (doc_fields doc) ''url'' of
        None \<Rightarrow> u = JNull
      | Some (JArr xs) \<Rightarrow> mg_same (JArr xs) u \<or> list_ex (\<lambda>x. mg_same x u) xs
      | Some v \<Rightarrow> mg_same v u)"

text \<open>
  Two kinds of record are outside this model of \<^verbatim>\<open>update_one\<close>: one whose url is a
  dict whose first key starts with \<^verbatim>\<open>$\<close> (the server reads it as a query operator),
  and one with a key, at any depth, that is empty, starts with \<^verbatim>\<open>$\<close> or contains a
  dot or a zero byte, or with the top-level key \<^verbatim>\<open>_id\<close> (the server rejects such a
  key, or reads it as a path into the document, depending on its version).
\<close>

fun is_operator_doc :: "json \<Rightarrow> bool" where
  "is_operator_doc (JObj ((k, v) # kvs)) = (take 1 k = ''$'')"
| "is_operator_doc x = False"

definition plain_name :: "string \<Rightarrow> bool" where
  "plain_name k = (k \<noteq> [] \<and> take 1 k \<noteq> ''$'' \<and> CHR ''.'' \<notin> set k \<and> CHR 0x00 \<notin> set k)"

fun plain_keys :: "json \<Rightarrow> bool" where
  "plain_keys (JObj kvs) = list_all (\<lambda>kv. plain_name (fst kv) \<and> plain_keys (snd kv)) kvs"
| "plain_keys (JArr xs) = list_all plain_keys xs"
| "plain_keys x = True"

text \<open>\<^verbatim>\<open>{'$set': jsonData}\<close> on the fields of a document.\<close>

definition apply_set :: "(string \<times> json) list \<Rightarrow> (string \<times> json) list \<Rightarrow> (string \<times> json) list" where
  "apply_set sets fs = fold (\<lambda>kv gs. AList.update (fst kv) (snd kv) gs) sets fs"

fun update_first :: "('a \<Rightarrow> bool) \<Rightarrow> ('a \<Rightarrow> 'a) \<Rightarrow> 'a list \<Rightarrow> 'a list option" where
  "update_first P f [] = None"
| "update_first P f (x # xs) =
     (if P x then Some (f x # xs) else map_option ((#) x) (update_first P f xs))"

definition fresh_oid :: "collection \<Rightarrow> nat" where
  "fresh_oid c = Suc (fold max (map oid c) 0)"

text \<open>
  \<^verbatim>\<open>collection.update_one({'url': u}, {'$set': jsonData}, upsert=True)\<close>: pymongo
  encodes the two documents; then the first document that matches gets the fields of
  the record, and when none matches, a document with the url and the fields of the
  record is inserted.
\<close>

definition update_one_upsert :: "json \<Rightarrow> (string \<times> json) list \<Rightarrow> (collection, unit) prog" where
  "update_one_upsert u sets c =
     (if \<not> int64s (JObj sets) then (Inl OverflowError, c)
      else if is_operator_doc u \<or> \<not> plain_keys (JObj sets) \<or> ''_id'' \<in> set (map fst sets)
      then (Inl NotModelled, c)
      else
        (case update_first (url_matches u) (\<lambda>doc. doc\<lparr>doc_fields := apply_set sets (doc_fields doc)\<rparr>) c of
           Some c' \<Rightarrow> (Inr (), c')
         | None \<Rightarrow>
             (Inr (), c @ [\<lparr>oid = fresh_oid c, doc_fields = apply_set sets [(''url'', u)]\<rparr>])))"

text \<open>
  The body of the loop of \<^verbatim>\<open>populateMongo\<close>. \<^verbatim>\<open>jsonData['url']\<close> succeeds on a dict
  only, whose items are then the fields to set.
\<close>

fun dict_items :: "json \<Rightarrow> (string \<times> json) list" where
  "dict_items (JObj kvs) = kvs"
| "dict_items x = []"

definition upsert_record :: "json \<Rightarrow> (collection, unit) prog" where
  "upsert_record jsonData =
     bindC (lift (py_getitem jsonData ''url'')) (\<lambda>u. update_one_upsert u (dict_items jsonData))"

text \<open>
  \<^verbatim>\<open>populateMongo(jsonDir, clearDb)\<close>: there is no \<^verbatim>\<open>try\<close>, the first exception ends the
  loop. The result is the number of documents the function prints.
\<close>

definition populateMongo :: "json list \<Rightarrow> bool \<Rightarrow> (collection, nat) prog" where
  "populateMongo jsonFiles clearDb c =
     (case for_each jsonFiles upsert_record (if clearDb then [] else c) of
        (Inl e, c') \<Rightarrow> (Inl e, c')
      | (Inr u, c') \<Rightarrow> (Inr (length c'), c'))"

section \<open>Reading the SQLite store\<close>

definition rows_of :: "db \<Rightarrow> string \<Rightarrow> row list" where
  "rows_of d n = (case map_of d n of None \<Rightarrow> [] | Some t \<Rightarrow> rows t)"





section \<open>Reading the graph\<close>



text \<open>The relationships of one type: their two ends and their properties.\<close>

definition rels_of :: "graph \<Rightarrow> string \<Rightarrow> (nat \<times> (string \<times> json) list \<times> nat) list" where
  "rels_of g t = map (\<lambda>r. (rsrc r, rprops r, rdst r)) (filter (\<lambda>r. rtype r = t) (rels g))"


section \<open>Records used as examples\<close>

text \<open>A record with every array, as the Vision API returns them.\<close>

definition liberty :: json where
  "liberty =
     JObj [(''url'', JStr ''http://img/liberty.jpg''),
           (''response'', JObj
              [(''labelAnnotations'', JArr
                  [JObj [(''mid'', JStr ''/m/0c9ph5''), (''description'', JStr ''Statue''),
                         (''score'', JNum (9 / 10))]]),
               (''webDetection'', JObj
                  [(''fullMatchingImages'', JArr [JObj [(''url'', JStr ''http://img/harbor.jpg'')]]),
                   (''pagesWithMatchingImages'', JArr [JObj [(''url'', JStr ''http://page/nyc'')]]),
                   (''webEntities'', JArr
                      [JObj [(''entityId'', JStr ''/m/072p8''), (''score'', JNum (3 / 4))]])]),
               (''landmarkAnnotations'', JArr
                  [JObj [(''mid'', JStr ''/m/072p8''), (''description'', JStr ''Statue of Liberty''),
                         (''score'', JNum (4 / 5)),
                         (''locations'', JArr
                            [JObj [(''latLng'', JObj [(''latitude'', JNum (4069 / 100)),
                                                      (''longitude'', JNum (- 7404 / 100))])]])]])])]"

text \<open>
  The image that \<open>liberty\<close> names as a full match, now as a record of its own, without
  landmarks.
\<close>

definition harbor :: json where
  "harbor =
     JObj [(''url'', JStr ''http://img/harbor.jpg''),
           (''response'', JObj
              [(''labelAnnotations'', JArr []),
               (''webDetection'', JObj [(''webEntities'', JArr [])])])]"

text \<open>A record with a url and a response, and no array at all.\<close>

definition bare :: json where
  "bare = JObj [(''url'', JStr ''http://img/bare.jpg''), (''response'', JObj [])]"

text \<open>A record with one label and no \<^verbatim>\<open>webDetection\<close>.\<close>

definition labelled :: json where
  "labelled =
     JObj [(''url'', JStr ''http://img/cat.jpg''),
           (''response'', JObj
              [(''labelAnnotations'', JArr
                  [JObj [(''mid'', JStr ''/m/01yrx''), (''description'', JStr ''Cat''),
                         (''score'', JNum (9 / 10))]])])]"

text \<open>A record whose label has no \<^verbatim>\<open>mid\<close> value: \<^verbatim>\<open>"mid": null\<close> in the file.\<close>

definition nameless :: json where
  "nameless =
     JObj [(''url'', JStr ''http://img/cat.jpg''),
           (''response'', JObj
              [(''labelAnnotations'', JArr
                  [JObj [(''mid'', JNull), (''description'', JStr ''Cat''),
                         (''score'', JNum (9 / 10))]]),
               (''webDetection'', JObj [(''webEntities'', JArr [])])])]"

text \<open>A file that holds no url and no response.\<close>

definition empty_record :: json where
  "empty_record = JObj []"

text \<open>
  A second image of the landmark of \<open>liberty\<close>: the same \<^verbatim>\<open>mid\<close>, description and
  location.
\<close>

definition ellis :: json where
  "ellis =
     JObj [(''url'', JStr ''http://img/ellis.jpg''),
           (''response'', JObj
              [(''labelAnnotations'', JArr []),
               (''webDetection'', JObj [(''webEntities'', JArr [])]),
               (''landmarkAnnotations'', JArr
                  [JObj [(''mid'', JStr ''/m/072p8''), (''description'', JStr ''Statue of Liberty''),
                         (''score'', JNum (7 / 10)),
                         (''locations'', JArr
                            [JObj [(''latLng'', JObj [(''latitude'', JNum (4069 / 100)),
                                                      (''longitude'', JNum (- 7404 / 100))])]])]])])]"

text \<open>
  A record with one landmark and nothing else: the url of the image, the \<^verbatim>\<open>mid\<close> and
  the description of the landmark, and its one location.
\<close>

definition landmark_record :: "string \<Rightarrow> string \<Rightarrow> string \<Rightarrow> rat \<Rightarrow> rat \<Rightarrow> json" where
  "landmark_record url mid desc lat lng =
     JObj [(''url'', JStr url),
           (''response'', JObj
              [(''labelAnnotations'', JArr []),
               (''webDetection'', JObj [(''webEntities'', JArr [])]),
               (''landmarkAnnotations'', JArr
                  [JObj [(''mid'', JStr mid), (''description'', JStr desc),
                         (''score'', JNum (4 / 5)),
                         (''locations'', JArr
                            [JObj [(''latLng'', JObj [(''latitude'', JNum lat),
                                                      (''longitude'', JNum lng)])]])]])])]"

text \<open>
  The Statue of Liberty under two \<^verbatim>\<open>mid\<close>s: in \<open>statues_apart\<close> at two locations, in
  \<open>statues_together\<close> at one.
\<close>

definition statues_apart :: "json list" where
  "statues_apart =
     [landmark_record ''http://img/a.jpg'' ''/m/072p8'' ''Statue of Liberty'' (4069 / 100) (- 7404 / 100),
      landmark_record ''http://img/b.jpg'' ''/g/11b6'' ''Statue of Liberty'' (4070 / 100) (- 7405 / 100)]"

definition statues_together :: "json list" where
  "statues_together =
     [landmark_record ''http://img/a.jpg'' ''/m/072p8'' ''Statue of Liberty'' (4069 / 100) (- 7404 / 100),
      landmark_record ''http://img/b.jpg'' ''/g/11b6'' ''Statue of Liberty'' (4069 / 100) (- 7404 / 100)]"

text \<open>
  Two files with nothing but a url: in \<open>listed\<close> the url is a list of one string, in
  \<open>unlisted\<close> it is that string.
\<close>

definition listed :: json where
  "listed = JObj [(''url'', JArr [JStr ''http://img/a.jpg''])]"

definition unlisted :: json where
  "unlisted = JObj [(''url'', JStr ''http://img/a.jpg'')]"

text \<open>
  A record with one label and an empty \<^verbatim>\<open>webDetection.webEntities\<close>; \<open>score\<close> is the
  score of the label.
\<close>

definition tagged :: "json \<Rightarrow> json" where
  "tagged score =
     JObj [(''url'', JStr ''http://img/cat.jpg''),
           (''response'', JObj
              [(''labelAnnotations'', JArr
                  [JObj [(''mid'', JStr ''/m/01yrx''), (''description'', JStr ''Cat''),
                         (''score'', score)]]),
               (''webDetection'', JObj [(''webEntities'', JArr [])])])]"

section \<open>How ingestion changes the flag of a url\<close>





section \<open>Grouping, counting and ordering\<close>

text \<open>
  The distinct elements of a list, each where it first occurs; \<open>same\<close> is the equality
  of the backend.
\<close>

fun first_occurrences :: "('a \<Rightarrow> 'a \<Rightarrow> bool) \<Rightarrow> 'a list \<Rightarrow> 'a list" where
  "first_occurrences same [] = []"
| "first_occurrences same (x # xs) = x # first_occurrences same (filter (\<lambda>y. \<not> same y x) xs)"

text \<open>\<^verbatim>\<open>GROUP BY\<close> with \<^verbatim>\<open>COUNT(*)\<close>: every key with the number of rows that have it.\<close>

definition count_groups :: "('k \<Rightarrow> 'k \<Rightarrow> bool) \<Rightarrow> 'k list \<Rightarrow> ('k \<times> nat) list" where
  "count_groups same ks =
     map (\<lambda>k. (k, length (filter (\<lambda>x. same x k) ks))) (first_occurrences same ks)"

fun insort_by :: "('a \<Rightarrow> 'a \<Rightarrow> bool) \<Rightarrow> 'a \<Rightarrow> 'a list \<Rightarrow> 'a list" where
  "insort_by le x [] = [x]"
| "insort_by le x (y # ys) = (if le x y then x # y # ys else y # insort_by le x ys)"

definition sort_by :: "('a \<Rightarrow> 'a \<Rightarrow> bool) \<Rightarrow> 'a list \<Rightarrow> 'a list" where
  "sort_by le xs = foldr (insort_by le) xs []"

text \<open>
  The order of all twelve queries: the count descending, then the label ascending in
  the order \<open>le\<close> of the backend. Rows that the order does not tell apart stay as they
  were.
\<close>

definition by_count_then_label :: "('k \<Rightarrow> 'k \<Rightarrow> bool) \<Rightarrow> ('k \<times> nat) list \<Rightarrow> ('k \<times> nat) list" where
  "by_count_then_label le rs =
     sort_by (\<lambda>a b. snd b < snd a \<or> (snd a = snd b \<and> le (fst a) (fst b))) rs"

text \<open>
  The order of two floats; \<^verbatim>\<open>NaN\<close> is before every number in MongoDB and after every
  number in Neo4j.
\<close>

fun float_le :: "bool \<Rightarrow> pyfloat \<Rightarrow> pyfloat \<Rightarrow> bool" where
  "float_le nan_first NaN NaN = True"
| "float_le nan_first NaN y = nan_first"
| "float_le nan_first x NaN = (\<not> nan_first)"
| "float_le nan_first NegInf y = True"
| "float_le nan_first x PosInf = True"
| "float_le nan_first (Finite a) (Finite b) = (a \<le> b)"
| "float_le nan_first x y = False"

fun json_num :: "json \<Rightarrow> pyfloat option" where
  "json_num (JInt n) = Some (Finite (of_int n))"
| "json_num (JFloat f) = Some f"
| "json_num x = None"

text \<open>
  The backends order values of different types differently and agree on two values of
  one type: numbers by value, strings by their bytes, \<open>False\<close> before \<open>True\<close>. Lists
  and maps are compared by their rank alone.
\<close>

definition json_le :: "(json \<Rightarrow> nat) \<Rightarrow> bool \<Rightarrow> json \<Rightarrow> json \<Rightarrow> bool" where
  "json_le rank nan_first a b =
     (case (json_num a, json_num b) of
        (Some x, Some y) \<Rightarrow> float_le nan_first x y
      | _ \<Rightarrow>
          (case (a, b) of
             (JStr s, JStr t) \<Rightarrow> s \<le> t
           | (JBool x, JBool y) \<Rightarrow> x \<le> y
           | _ \<Rightarrow> rank a \<le> rank b))"


section \<open>The queries of SQLite\<close>

text \<open>
  SQLite orders \<^verbatim>\<open>NULL\<close> first, then numbers, then texts, and groups two \<^verbatim>\<open>NULL\<close>s
  together.
\<close>

fun sql_rank :: "sqlval \<Rightarrow> nat" where
  "sql_rank SNull = 0"
| "sql_rank (SText s) = 2"
| "sql_rank v = 1"

definition sql_le :: "sqlval \<Rightarrow> sqlval \<Rightarrow> bool" where
  "sql_le a b =
     (case (a, b) of
        (SText s, SText t) \<Rightarrow> s \<le> t
      | _ \<Rightarrow>
          (case (sql_num a, sql_num b) of
             (Some x, Some y) \<Rightarrow> float_le True x y
           | _ \<Rightarrow> sql_rank a \<le> sql_rank b))"

definition sql_same :: "sqlval \<Rightarrow> sqlval \<Rightarrow> bool" where
  "sql_same a b = (a = b \<or> sql_eq a b)"

text \<open>\<^verbatim>\<open>a JOIN b ON a.id == b.k\<close>: the pairs of rows, in the order of the nested loops.\<close>

definition join_on_id :: "row list \<Rightarrow> row list \<Rightarrow> string \<Rightarrow> (row \<times> row) list" where
  "join_on_id as bs k =
     concat (map (\<lambda>a. map (\<lambda>b. (a, b))
                          (filter (\<lambda>b. sql_eq (SInt (int (rid a))) (cell b k)) bs)) as)"

text \<open>
  \<^verbatim>\<open>query_1\<close>: the images by the number of rows of \<^verbatim>\<open>image_contains_landmark\<close> they
  join with, grouped by url.
\<close>

definition query_1 :: "db \<Rightarrow> (sqlval \<times> nat) list" where
  "query_1 d =
     take 10 (by_count_then_label sql_le
       (count_groups sql_same
          (map (\<lambda>p. cell (fst p) ''url'')
             (join_on_id (rows_of d ''image'') (rows_of d ''image_contains_landmark'')
                ''image_id''))))"

text \<open>
  \<^verbatim>\<open>query_2\<close>: the rows of \<^verbatim>\<open>landmark_located_at_location\<close> joined with their
  landmark, grouped by the description of the landmark, \<^verbatim>\<open>HAVING COUNT(*) > 1\<close>.
\<close>

definition query_2 :: "db \<Rightarrow> (sqlval \<times> nat) list" where
  "query_2 d =
     by_count_then_label sql_le
       (filter (\<lambda>g. 1 < snd g)
          (count_groups sql_same
             (map (\<lambda>p. cell (fst p) ''description'')
                (join_on_id (rows_of d ''landmark'') (rows_of d ''landmark_located_at_location'')
                   ''landmark_id''))))"


section \<open>The queries of Neo4j\<close>

text \<open>
  Cypher orders strings before booleans before numbers, and \<^verbatim>\<open>null\<close> last; it groups
  two values together when they denote the same.
\<close>

fun cy_rank :: "json \<Rightarrow> nat" where
  "cy_rank (JObj kvs) = 0"
| "cy_rank (JArr xs) = 1"
| "cy_rank (JStr s) = 2"
| "cy_rank (JBool b) = 3"
| "cy_rank (JInt n) = 4"
| "cy_rank (JFloat f) = 4"
| "cy_rank JNull = 5"

definition cy_same :: "json \<Rightarrow> json \<Rightarrow> bool" where
  "cy_same a b = (canon a = canon b)"

definition node_prop :: "node \<Rightarrow> string \<Rightarrow> json" where
  "node_prop n k = (case map_of (nprops n) k of None \<Rightarrow> JNull | Some v \<Rightarrow> v)"

text \<open>
  \<^verbatim>\<open>MATCH (a:la)-[:t]->(b:lb)\<close>: the pairs of nodes with these labels that a
  relationship of type \<open>t\<close> joins, one pair for each such relationship.
\<close>

definition match_pattern :: "graph \<Rightarrow> string \<Rightarrow> string \<Rightarrow> string \<Rightarrow> (node \<times> node) list" where
  "match_pattern g la t lb =
     concat (map (\<lambda>a.
       concat (map (\<lambda>r.
         map (\<lambda>b. (a, b)) (filter (\<lambda>b. nlabel b = lb \<and> nid b = rdst r) (nodes g)))
         (filter (\<lambda>r. rtype r = t \<and> rsrc r = nid a) (rels g))))
       (filter (\<lambda>a. nlabel a = la) (nodes g)))"

text \<open>\<^verbatim>\<open>query_5\<close>: the images by the landmarks they contain, grouped by \<^verbatim>\<open>i.url\<close>.\<close>

definition query_5 :: "graph \<Rightarrow> (json \<times> nat) list" where
  "query_5 g =
     take 10 (by_count_then_label (json_le cy_rank False)
       (count_groups cy_same
          (map (\<lambda>p. node_prop (fst p) ''url'') (match_pattern g ''Image'' ''CONTAINS'' ''Landmark''))))"

text \<open>\<^verbatim>\<open>query_6\<close>: the locations of landmarks, grouped by \<^verbatim>\<open>la.description\<close>.\<close>

definition query_6 :: "graph \<Rightarrow> (json \<times> nat) list" where
  "query_6 g =
     by_count_then_label (json_le cy_rank False)
       (filter (\<lambda>r. 1 < snd r)
          (count_groups cy_same
             (map (\<lambda>p. node_prop (fst p) ''description'')
                (match_pattern g ''Landmark'' ''LOCATED_AT'' ''Location''))))"

text \<open>
  \<^verbatim>\<open>query_9\<close>: the locations of landmarks, grouped by the node \<^verbatim>\<open>la\<close>; the
  description is read from the node afterwards.
\<close>

definition query_9 :: "graph \<Rightarrow> (json \<times> nat) list" where
  "query_9 g =
     by_count_then_label (json_le cy_rank False)
       (map (\<lambda>r. (node_prop (fst r) ''description'', snd r))
          (filter (\<lambda>r. 1 < snd r)
             (count_groups (=) (map fst (match_pattern g ''Landmark'' ''LOCATED_AT'' ''Location'')))))"


section \<open>The pipelines of MongoDB\<close>

text \<open>MongoDB orders \<^verbatim>\<open>null\<close> before numbers before strings.\<close>

fun mg_rank :: "json \<Rightarrow> nat" where
  "mg_rank JNull = 1"
| "mg_rank (JInt n) = 2"
| "mg_rank (JFloat f) = 2"
| "mg_rank (JStr s) = 3"
| "mg_rank (JObj kvs) = 4"
| "mg_rank (JArr xs) = 5"
| "mg_rank (JBool b) = 6"

text \<open>
  One step of a field path in an expression: the field of a document, and of an array
  the array of that field over its elements that are documents and have it. \<open>None\<close> is
  a missing value.
\<close>

fun mg_field :: "json option \<Rightarrow> string \<Rightarrow> json option" where
  "mg_field (Some (JObj kvs)) k = map_of kvs k"
| "mg_field (Some (JArr xs)) k =
     Some (JArr (concat (map (\<lambda>x. case x of
                                     JObj kvs \<Rightarrow> (case map_of kvs k of None \<Rightarrow> [] | Some v \<Rightarrow> [v])
                                   | _ \<Rightarrow> []) xs)))"
| "mg_field x k = None"

definition mg_path :: "document \<Rightarrow> string list \<Rightarrow> json option" where
  "mg_path doc ks = fold (\<lambda>k v. mg_field v k) ks (Some (JObj (doc_fields doc)))"

text \<open>\<^verbatim>\<open>{'$size': {'$ifNull': [x, []]}}\<close>: the server rejects a value that is no array.\<close>

fun size_if_null :: "json option \<Rightarrow> error + nat" where
  "size_if_null None = Inr 0"
| "size_if_null (Some JNull) = Inr 0"
| "size_if_null (Some (JArr xs)) = Inr (length xs)"
| "size_if_null (Some x) = Inl OperationFailure"

fun collect :: "(error + 'a) list \<Rightarrow> error + 'a list" where
  "collect [] = Inr []"
| "collect (r # rs) =
     (case r of
        Inl e \<Rightarrow> Inl e
      | Inr x \<Rightarrow> (case collect rs of Inl e \<Rightarrow> Inl e | Inr xs \<Rightarrow> Inr (x # xs)))"

definition field_or_null :: "json option \<Rightarrow> json" where
  "field_or_null v = (case v of None \<Rightarrow> JNull | Some x \<Rightarrow> x)"

text \<open>
  \<^verbatim>\<open>pipeline_1\<close>: every document with the size of its \<^verbatim>\<open>response.landmarkAnnotations\<close>,
  zero when it has none.
\<close>

definition pipeline_1 :: "collection \<Rightarrow> error + (json \<times> nat) list" where
  "pipeline_1 c =
     bindE (collect (map (\<lambda>doc.
               bindE (size_if_null (mg_path doc [''response'', ''landmarkAnnotations'']))
                 (\<lambda>cnt. Inr (field_or_null (mg_path doc [''url'']), cnt))) c))
       (\<lambda>rs. Inr (take 10 (by_count_then_label (json_le mg_rank True) rs)))"

text \<open>
  What \<^verbatim>\<open>$unwind\<close> makes of the value at its path: the elements of an array, nothing
  of a missing value, of \<^verbatim>\<open>null\<close> and of the empty array, the value itself otherwise.
  A step of the path of \<^verbatim>\<open>$unwind\<close> reads a field of a document and does not look
  into arrays.
\<close>

fun unwind :: "json option \<Rightarrow> json list" where
  "unwind None = []"
| "unwind (Some JNull) = []"
| "unwind (Some (JArr xs)) = xs"
| "unwind (Some x) = [x]"

fun mg_nested :: "json option \<Rightarrow> string \<Rightarrow> json option" where
  "mg_nested (Some (JObj kvs)) k = map_of kvs k"
| "mg_nested x k = None"

text \<open>
  \<^verbatim>\<open>pipeline_2\<close>: the two \<^verbatim>\<open>$unwind\<close> give one row for each location of each landmark
  annotation of each document; the first \<^verbatim>\<open>$group\<close> keeps the distinct pairs of
  description and \<^verbatim>\<open>latLng\<close>, the second counts them by description.
\<close>

definition pipeline_2 :: "collection \<Rightarrow> (json \<times> nat) list" where
  "pipeline_2 c =
     filter (\<lambda>r. 1 < snd r)
       (by_count_then_label (json_le mg_rank True)
          (count_groups mg_same
             (map (\<lambda>k. field_or_null (fst k))
                (first_occurrences
                   (\<lambda>k l. map_option canon (fst k) = map_option canon (fst l) \<and>
                           map_option canon (snd k) = map_option canon (snd l))
                   (concat (map (\<lambda>doc.
                      concat (map (\<lambda>lma.
                        map (\<lambda>loc. (mg_field (Some lma) ''description'', mg_field (Some loc) ''latLng''))
                            (unwind (mg_nested (Some lma) ''locations'')))
                        (unwind (mg_nested (mg_nested (Some (JObj (doc_fields doc))) ''response'')
                                   ''landmarkAnnotations'')))) c))))))"

section \<open>Rows are only ever appended\<close>

lemma table_extends_refl: "table_extends a a"
  by (simp add: table_extends_def split: option.splits)

lemma table_extends_trans: "table_extends a b \<Longrightarrow> table_extends b c \<Longrightarrow> table_extends a c"
  by (auto simp: table_extends_def split: option.splits)

lemma extends_refl: "extends d d"
  by (simp add: extends_def table_extends_refl)

lemma extends_trans: "extends a b \<Longrightarrow> extends b c \<Longrightarrow> extends a c"
  unfolding extends_def using table_extends_trans by blast







lemma map_of_update_other: "n \<noteq> k \<Longrightarrow> map_of (AList.update k v al) n = map_of al n"
  by (simp add: update_conv')

lemma getOrCreateRow_other_tables:
  "n \<noteq> tname \<Longrightarrow> map_of (snd (getOrCreateRow tname dd d)) n = map_of d n"
  by (auto simp: getOrCreateRow_def Let_def update_conv' split: option.splits sum.splits)

lemma getOrCreateRow_same_table:
  "map_of d tname = Some t \<Longrightarrow>
   map_of (snd (getOrCreateRow tname dd d)) tname = Some t \<or>
   (\<exists>binds. bind_all dd = Inr binds \<and> select_id t binds = None \<and>
      map_of (snd (getOrCreateRow tname dd d)) tname = Some (insert_row t binds))"
  by (auto simp: getOrCreateRow_def Let_def update_conv' split: option.splits sum.splits)

lemma getOrCreateRow_no_table:
  "map_of d tname = None \<Longrightarrow> getOrCreateRow tname dd d = (Inl OperationalError, d)"
  by (simp add: getOrCreateRow_def)

lemma getOrCreateRow_extends: "extends d (snd (getOrCreateRow tname dd d))"
proof -
  have "table_extends (map_of d n) (map_of (snd (getOrCreateRow tname dd d)) n)" for n
  proof (cases "n = tname")
    case False
    then show ?thesis by (simp add: getOrCreateRow_other_tables table_extends_refl)
  next
    case True
    show ?thesis
    proof (cases "map_of d tname")
      case None
      then show ?thesis using True by (simp add: getOrCreateRow_no_table table_extends_refl)
    next
      case (Some t)
      from getOrCreateRow_same_table[OF Some, of dd] show ?thesis
        using True Some by (auto simp: table_extends_def insert_row_def)
    qed
  qed
  then show ?thesis by (simp add: extends_def)
qed


section \<open>Running a program again\<close>

lemma replaysI:
  assumes "\<And>d r d'. m d = (r, d') \<Longrightarrow> good bad r \<Longrightarrow> E d d'"
    and "\<And>d r d' d''. m d = (r, d') \<Longrightarrow> good bad r \<Longrightarrow> E d' d'' \<Longrightarrow> m d'' = (r, d'')"
  shows "replays E bad m"
  using assms unfolding replays_def by blast

lemma replaysD1: "replays E bad m \<Longrightarrow> m d = (r, d') \<Longrightarrow> good bad r \<Longrightarrow> E d d'"
  unfolding replays_def by blast

lemma replaysD2:
  "replays E bad m \<Longrightarrow> m d = (r, d') \<Longrightarrow> good bad r \<Longrightarrow> E d' d'' \<Longrightarrow> m d'' = (r, d'')"
  unfolding replays_def by blast

lemma good_Inr [simp]: "good bad (Inr x)"
  by (simp add: good_def)

lemma good_Inl [simp]: "good bad (Inl e) = (\<not> bad e)"
  by (simp add: good_def)

lemma replays_lift: "reflp E \<Longrightarrow> replays E bad (lift r)"
  by (rule replaysI) (auto simp: lift_def reflpD)

lemma replays_bindC:
  assumes tr: "transp E" and m: "replays E bad m" and f: "\<And>x. replays E bad (f x)"
  shows "replays E bad (bindC m f)"
proof (rule replaysI)
  fix d r d'
  assume run: "bindC m f d = (r, d')" and ok: "good bad r"
  obtain r1 d1 where md: "m d = (r1, d1)" by (cases "m d")
  show "E d d'"
  proof (cases r1)
    case (Inl e)
    then have eq: "r = Inl e" "d' = d1" using run md by (auto simp: bindC_def)
    then have "good bad r1" using ok Inl by simp
    then show ?thesis using replaysD1[OF m md] eq by simp
  next
    case (Inr x)
    then have fx: "f x d1 = (r, d')" using run md by (simp add: bindC_def)
    have "E d d1" using replaysD1[OF m md] Inr by simp
    moreover have "E d1 d'" using replaysD1[OF f fx ok] .
    ultimately show ?thesis by (rule transpD[OF tr])
  qed
  fix d''
  assume ext: "E d' d''"
  show "bindC m f d'' = (r, d'')"
  proof (cases r1)
    case (Inl e)
    then have eq: "r = Inl e" "d' = d1" using run md by (auto simp: bindC_def)
    then have "good bad r1" using ok Inl by simp
    then have "m d'' = (r1, d'')" using replaysD2[OF m md] ext eq by simp
    then show ?thesis using Inl eq by (simp add: bindC_def)
  next
    case (Inr x)
    then have fx: "f x d1 = (r, d')" using run md by (simp add: bindC_def)
    have "E d1 d'" using replaysD1[OF f fx ok] .
    then have "E d1 d''" using ext by (rule transpD[OF tr])
    then have "m d'' = (r1, d'')" using replaysD2[OF m md] Inr by simp
    moreover have "f x d'' = (r, d'')" using replaysD2[OF f fx ok ext] .
    ultimately show ?thesis using Inr by (simp add: bindC_def)
  qed
qed

lemma for_each_Cons_bindC: "for_each (x # xs) f = bindC (f x) (\<lambda>u. for_each xs f)"
  by (rule ext) (simp add: bindC_def split: prod.splits sum.splits)

lemma replays_for_each:
  assumes rf: "reflp E" and tr: "transp E" and f: "\<And>x. replays E bad (f x)"
  shows "replays E bad (for_each xs f)"
proof (induction xs)
  case Nil
  show ?case by (rule replaysI) (auto simp: reflpD[OF rf])
next
  case (Cons x xs)
  show ?case unfolding for_each_Cons_bindC by (intro replays_bindC tr f Cons.IH)
qed

lemma replays_if: "replays E bad a \<Longrightarrow> replays E bad b \<Longrightarrow> replays E bad (if c then a else b)"
  by simp


section \<open>Ingesting into SQLite again\<close>

lemma find_app:
  "List.find P (xs @ ys) = (case List.find P xs of None \<Rightarrow> List.find P ys | Some x \<Rightarrow> Some x)"
  by (induction xs) auto

lemma find_prefix:
  "List.find P xs = Some x \<Longrightarrow> prefix xs ys \<Longrightarrow> List.find P ys = Some x"
  by (auto simp: prefix_def find_app)

lemma select_id_prefix:
  "select_id t binds = Some i \<Longrightarrow> prefix (rows t) (rows t2) \<Longrightarrow> select_id t2 binds = Some i"
  by (auto simp: select_id_def dest: find_prefix)

lemma reflp_extends: "reflp extends"
  by (rule reflpI) (rule extends_refl)

lemma transp_extends: "transp extends"
  by (rule transpI) (rule extends_trans)

lemma replays_getOrCreateRow: "replays extends is_sww (getOrCreateRow tname dd)"
proof (rule replaysI)
  fix d r d'
  assume run: "getOrCreateRow tname dd d = (r, d')" and ok: "good is_sww r"
  show "extends d d'" using getOrCreateRow_extends[of d tname dd] run by simp
  fix d''
  assume ext: "extends d' d''"
  have te: "table_extends (map_of d' tname) (map_of d'' tname)"
    using ext by (simp add: extends_def)
  show "getOrCreateRow tname dd d'' = (r, d'')"
  proof (cases "map_of d tname")
    case None
    then have "r = Inl OperationalError" "d' = d" using run by (auto simp: getOrCreateRow_def)
    then have "map_of d'' tname = None" using te None by (simp add: table_extends_def)
    then show ?thesis using \<open>r = Inl OperationalError\<close> by (simp add: getOrCreateRow_def)
  next
    case (Some t)
    from getOrCreateRow_same_table[OF Some, of dd] run
    obtain t1 where t1: "map_of d' tname = Some t1" "columns t1 = columns t"
      by (auto simp: insert_row_def)
    then obtain t2 where t2: "map_of d'' tname = Some t2" "columns t2 = columns t"
      "prefix (rows t1) (rows t2)"
      using te by (auto simp: table_extends_def split: option.splits)
    show ?thesis
    proof (cases "dd = [] \<or> \<not> list_all (\<lambda>k. k \<in> set (map fst (columns t))) (map fst dd)")
      case True
      then have "r = Inl OperationalError" using run Some by (auto simp: getOrCreateRow_def)
      then show ?thesis using True t2 by (auto simp: getOrCreateRow_def)
    next
      case False
      show ?thesis
      proof (cases "bind_all dd")
        case (Inl e)
        then have "r = Inl e" using run Some False by (auto simp: getOrCreateRow_def)
        then show ?thesis using False t2 Inl by (auto simp: getOrCreateRow_def)
      next
        case (Inr binds)
        show ?thesis
        proof (cases "typed t binds")
          case nt: False
          then have "r = Inl NotModelled"
            using run \<open>map_of d tname = Some t\<close> False Inr by (auto simp: getOrCreateRow_def)
          moreover have "\<not> typed t2 binds" using nt t2 by (simp add: typed_def)
          ultimately show ?thesis using False t2 Inr by (auto simp: getOrCreateRow_def)
        next
          case ty: True
          then have ty2: "typed t2 binds" using t2 by (simp add: typed_def)
          show ?thesis
          proof (cases "select_id t binds")
            case (Some i)
            then have r: "r = Inr i" "d' = d"
              using run \<open>map_of d tname = Some t\<close> False Inr ty by (auto simp: getOrCreateRow_def)
            then have "t1 = t" using t1 \<open>map_of d tname = Some t\<close> by simp
            then have "select_id t2 binds = Some i" using select_id_prefix[OF Some] t2 by simp
            then show ?thesis using False t2 Inr r ty2 by (auto simp: getOrCreateRow_def)
          next
            case None
            then have d': "d' = AList.update tname (insert_row t binds) d"
              using run \<open>map_of d tname = Some t\<close> False Inr ty
              by (auto simp: getOrCreateRow_def Let_def split: option.splits)
            then have t1eq: "t1 = insert_row t binds" using t1 by (simp add: update_conv')
            obtain i where i: "select_id (insert_row t binds) binds = Some i" "r = Inr i"
              using run \<open>map_of d tname = Some t\<close> False Inr None ok ty
              by (auto simp: getOrCreateRow_def Let_def split: option.splits)
            then have "select_id t2 binds = Some i" using select_id_prefix t2 t1eq by blast
            then show ?thesis using False t2 Inr i ty2 by (auto simp: getOrCreateRow_def)
          qed
        qed
      qed
    qed
  qed
qed

lemma replays_insertImage: "replays extends is_sww (insertImage j)"
  unfolding insertImage_def insertLabel_def insertMatch_def insertPage_def insertWebEntity_def
    insertLandmark_def insertLocation_def for_in2_def for_in3_def if_in_for_def
  by (intro replays_bindC replays_for_each replays_if replays_lift replays_getOrCreateRow
        reflp_extends transp_extends)

lemma populateSqlite_from_Cons_bindC:
  "populateSqlite_from cnt (j # js) =
     bindC (insertImage j) (\<lambda>u. populateSqlite_from (cnt + 1) js)"
  by (rule ext) (simp add: bindC_def split: prod.splits sum.splits)

lemma replays_populateSqlite_from: "replays extends is_sww (populateSqlite_from cnt js)"
proof (induction js arbitrary: cnt)
  case Nil
  show ?case by (rule replaysI) (auto simp: extends_refl)
next
  case (Cons j js)
  show ?case unfolding populateSqlite_from_Cons_bindC
    by (intro replays_bindC replays_insertImage Cons.IH transp_extends)
qed

lemma populateSqlite_again:
  assumes "populateSqlite jsonFiles d = (r, d')" and "good is_sww r"
  shows "populateSqlite jsonFiles d' = (r, d')"
  using replaysD2[OF replays_populateSqlite_from, of 0 jsonFiles d r d' d'] assms
  by (simp add: populateSqlite_def extends_refl)

section \<open>The resolver\<close>

text \<open>
  Claim C10. The docstring of \<^verbatim>\<open>getOrCreateRow\<close> promises the id of a row with the
  given data, created first when there is none, and the claim says that the final
  \<^verbatim>\<open>raise\<close> is never reached. The code inserts the row and then fails to find it
  when a value is \<^verbatim>\<open>None\<close> or \<^verbatim>\<open>NaN\<close> (both are bound as \<^verbatim>\<open>NULL\<close>, and
  \<^verbatim>\<open>"mid" = NULL\<close> is true of no row) and when an integer of more than 53 bits goes
  into a \<^verbatim>\<open>REAL\<close> column (the row holds the nearest double, which is not equal to the
  integer): in the three cases the \<^verbatim>\<open>raise\<close> is reached, with the row left in the
  table. An integer beyond 64 bits raises \<^verbatim>\<open>OverflowError\<close> before anything is
  written.
\<close>

theorem getOrCreateRow_raise_reached:
  "fst (getOrCreateRow ''label'' [(''mid'', JNull), (''description'', JStr ''Cat'')] (createSchema []))
     = Inl (SomethingWentWrong [(''mid'', JNull), (''description'', JStr ''Cat'')]) \<and>
   map cells (rows_of (snd (getOrCreateRow ''label'' [(''mid'', JNull), (''description'', JStr ''Cat'')]
                              (createSchema []))) ''label'')
     = [[(''mid'', SNull), (''description'', SText ''Cat'')]] \<and>
   fst (getOrCreateRow ''image_tagged_label''
          [(''image_id'', JInt 1), (''label_id'', JInt 1), (''score'', JFloat NaN)] (createSchema []))
     = Inl (SomethingWentWrong
              [(''image_id'', JInt 1), (''label_id'', JInt 1), (''score'', JFloat NaN)]) \<and>
   fst (getOrCreateRow ''image_tagged_label''
          [(''image_id'', JInt 1), (''label_id'', JInt 1), (''score'', JInt (2 ^ 53 + 1))]
          (createSchema []))
     = Inl (SomethingWentWrong
              [(''image_id'', JInt 1), (''label_id'', JInt 1), (''score'', JInt (2 ^ 53 + 1))]) \<and>
   map cells (rows_of (snd (getOrCreateRow ''image_tagged_label''
          [(''image_id'', JInt 1), (''label_id'', JInt 1), (''score'', JInt (2 ^ 53 + 1))]
          (createSchema []))) ''image_tagged_label'')
     = [[(''image_id'', SInt 1), (''label_id'', SInt 1), (''score'', SReal (Finite (2 ^ 53)))]] \<and>
   getOrCreateRow ''image_tagged_label''
          [(''image_id'', JInt 1), (''label_id'', JInt 1), (''score'', JInt (2 ^ 70))] (createSchema [])
     = (Inl OverflowError, createSchema [])"
  by code_simp

section \<open>One record in SQLite\<close>






lemma bindC_lift_Inl: "bindC (lift (Inl e)) f d = (Inl e, d)"
  by (simp add: bindC_def lift_def)

lemma bindC_Inr: "m d = (Inr x, d1) \<Longrightarrow> bindC m f d = f x d1"
  by (simp add: bindC_def)

lemma insertImage_no_url: "py_getitem j ''url'' = Inl e \<Longrightarrow> insertImage j d = (Inl e, d)"
  by (simp add: insertImage_def bindC_lift_Inl)

lemma bindC_keeps_after:
  assumes "m d = (Inr x, d1)" and "\<And>y. keeps R (f y)"
  shows "R d1 (snd (bindC m f d))"
  using assms by (simp add: bindC_def keeps_def)

text \<open>
  Claim C4. \<^verbatim>\<open>insertImage\<close> guards four of the six arrays with an \<^verbatim>\<open>in\<close> test;
  \<^verbatim>\<open>labelAnnotations\<close> and \<^verbatim>\<open>webDetection.webEntities\<close> (and \<^verbatim>\<open>webDetection\<close>
  itself) are read without one. A record with a url and a response and no
  \<^verbatim>\<open>labelAnnotations\<close> raises \<^verbatim>\<open>KeyError\<close>, and so does one with labels and no
  \<^verbatim>\<open>webDetection\<close>.
\<close>

theorem insertImage_absent_array_raises:
  "fst (insertImage bare (createSchema [])) = Inl (KeyError ''labelAnnotations'') \<and>
   fst (insertImage labelled (createSchema [])) = Inl (KeyError ''webDetection'')"
  by code_simp


section \<open>Many records in SQLite\<close>

text \<open>
  Claim C3. \<^verbatim>\<open>insertImage\<close> looks its own image up by url and \<^verbatim>\<open>is_document = 1\<close>,
  and a matched image by url alone. The image that was first stored as a match (with
  the default \<^verbatim>\<open>is_document = 0\<close>) is not found when its own record arrives, and a
  second row with the same url is inserted.
\<close>

theorem populateSqlite_image_url_twice:
  "fst (populateSqlite [liberty, harbor] (createSchema [])) = Inr 2 \<and>
   map cells (rows_of (snd (populateSqlite [liberty, harbor] (createSchema []))) ''image'') =
     [[(''url'', SText ''http://img/liberty.jpg''), (''is_document'', SInt 1)],
      [(''url'', SText ''http://img/harbor.jpg''), (''is_document'', SInt 0)],
      [(''url'', SText ''http://img/harbor.jpg''), (''is_document'', SInt 1)]]"
  by code_simp

text \<open>
  Claim C6. \<^verbatim>\<open>populateSqlite\<close> has no \<^verbatim>\<open>try\<close>: the exception of the first record
  ends the run, the record after it is never ingested and no count is reported.
\<close>

theorem populateSqlite_stops_at_first_failure:
  "populateSqlite [empty_record, harbor] (createSchema []) = (Inl (KeyError ''url''), createSchema []) \<and>
   fst (populateSqlite [harbor] (createSchema [])) = Inr 1"
  by code_simp


section \<open>A record that fails\<close>

lemma populateSqlite_from_append:
  "populateSqlite_from cnt pre d = (Inr n, w) \<Longrightarrow>
   populateSqlite_from cnt (pre @ rest) d = populateSqlite_from n rest w"
proof (induction pre arbitrary: cnt d)
  case Nil
  then show ?case by simp
next
  case (Cons j js)
  obtain r d1 where i: "insertImage j d = (r, d1)" by (cases "insertImage j d")
  show ?case
  proof (cases r)
    case (Inl e)
    then show ?thesis using Cons.prems i by simp
  next
    case (Inr u)
    then have "populateSqlite_from (cnt + 1) js d1 = (Inr n, w)" using Cons.prems i by simp
    from Cons.IH[OF this] show ?thesis using i Inr by simp
  qed
qed

lemma main_sqlite_failure:
  assumes "populateSqlite pre (createSchema dbfile) = (Inr n, written)"
    and "fst (insertImage j written) = Inl e"
  shows "main_sqlite (pre @ j # post) dbfile = (Inl e, createSchema dbfile)"
proof -
  obtain w' where "insertImage j written = (Inl e, w')"
    using assms(2) by (cases "insertImage j written") auto
  then have "populateSqlite_from n (j # post) written = (Inl e, w')" by simp
  then have "populateSqlite (pre @ j # post) (createSchema dbfile) = (Inl e, w')"
    using populateSqlite_from_append[of 0 pre "createSchema dbfile" n written "j # post"] assms(1)
    by (simp add: populateSqlite_def)
  then show ?thesis by (simp add: main_sqlite_def)
qed

lemma createSchema_empty:
  "n \<in> set (map fst schema) \<Longrightarrow> rows_of (createSchema dbfile) n = []"
  by (auto simp: createSchema_def schema_def rows_of_def new_table_def)

lemma session_run_failure: "fst (session_run j g) = Inl e \<Longrightarrow> snd (session_run j g) = g"
  by (auto simp: session_run_def split: prod.splits sum.splits if_splits)

lemma upsert_record_failure: "fst (upsert_record j c) = Inl e \<Longrightarrow> snd (upsert_record j c) = c"
  by (auto simp: upsert_record_def bindC_def lift_def update_one_upsert_def
           split: prod.splits sum.splits option.splits if_splits)

text \<open>
  Claim C5. A record whose ingestion fails leaves nothing in the store. In SQLite the
  rows that \<^verbatim>\<open>insertImage\<close> wrote before the exception are in a transaction that is
  never committed: when the records before \<open>j\<close> were ingested and \<open>j\<close> fails, \<^verbatim>\<open>main\<close>
  ends with the exception of \<open>j\<close> and the database file holds the tables as
  \<^verbatim>\<open>createSchema\<close> made them, every one of them empty. In Neo4j the query of a record
  is one transaction, and in MongoDB the record is one \<^verbatim>\<open>update_one\<close> that every error
  precedes: a failure leaves the graph and the collection as they were. The inputs at
  which the model stops are set aside.
\<close>

theorem failed_record_leaves_nothing:
  "(populateSqlite pre (createSchema dbfile) = (Inr n, written) \<and>
    fst (insertImage j written) = Inl e \<and> e \<noteq> NotModelled
    \<longrightarrow> main_sqlite (pre @ j # post) dbfile = (Inl e, createSchema dbfile) \<and>
        (\<forall>t \<in> set (map fst schema). rows_of (snd (main_sqlite (pre @ j # post) dbfile)) t = [])) \<and>
   (fst (session_run q g) = Inl e1 \<and> e1 \<noteq> NotModelled \<longrightarrow> snd (session_run q g) = g) \<and>
   (fst (upsert_record jsonData c) = Inl e2 \<and> e2 \<noteq> NotModelled
    \<longrightarrow> snd (upsert_record jsonData c) = c)"
proof (intro conjI impI ballI)
  assume h: "populateSqlite pre (createSchema dbfile) = (Inr n, written) \<and>
    fst (insertImage j written) = Inl e \<and> e \<noteq> NotModelled"
  then have a: "populateSqlite pre (createSchema dbfile) = (Inr n, written)"
    and b: "fst (insertImage j written) = Inl e" by simp_all
  show m: "main_sqlite (pre @ j # post) dbfile = (Inl e, createSchema dbfile)"
    by (rule main_sqlite_failure[OF a b])
  fix t assume "t \<in> set (map fst schema)"
  then show "rows_of (snd (main_sqlite (pre @ j # post) dbfile)) t = []"
    using m by (simp add: createSchema_empty)
next
  assume "fst (session_run q g) = Inl e1 \<and> e1 \<noteq> NotModelled"
  then have "fst (session_run q g) = Inl e1" by simp
  then show "snd (session_run q g) = g" by (rule session_run_failure)
next
  assume "fst (upsert_record jsonData c) = Inl e2 \<and> e2 \<noteq> NotModelled"
  then have "fst (upsert_record jsonData c) = Inl e2" by simp
  then show "snd (upsert_record jsonData c) = c" by (rule upsert_record_failure)
qed

theorem failed_record_leaves_nothing_witness:
  "populateSqlite [harbor] (createSchema []) =
     (Inr 1, snd (populateSqlite [harbor] (createSchema []))) \<and>
   map cells (rows_of (snd (insertImage labelled (snd (populateSqlite [harbor] (createSchema [])))))
                ''label'') = [[(''mid'', SText ''/m/01yrx''), (''description'', SText ''Cat'')]] \<and>
   fst (insertImage labelled (snd (populateSqlite [harbor] (createSchema []))))
     = Inl (KeyError ''webDetection'') \<and>
   main_sqlite ([harbor] @ labelled # [liberty]) [] = (Inl (KeyError ''webDetection''), createSchema []) \<and>
   rows_of (snd (main_sqlite ([harbor] @ labelled # [liberty]) [])) ''image'' = [] \<and>
   rows_of (snd (main_sqlite ([harbor] @ labelled # [liberty]) [])) ''label'' = [] \<and>
   fst (session_run nameless empty_graph) = Inl ClientError \<and>
   snd (session_run nameless empty_graph) = empty_graph \<and>
   fst (upsert_record empty_record []) = Inl (KeyError ''url'') \<and>
   snd (upsert_record empty_record []) = []"
proof -
  have p: "populateSqlite [harbor] (createSchema []) =
     (Inr 1, snd (populateSqlite [harbor] (createSchema [])))"
    by code_simp
  have w: "map cells (rows_of (snd (insertImage labelled (snd (populateSqlite [harbor] (createSchema [])))))
                ''label'') = [[(''mid'', SText ''/m/01yrx''), (''description'', SText ''Cat'')]]"
    by code_simp
  have f: "fst (insertImage labelled (snd (populateSqlite [harbor] (createSchema []))))
     = Inl (KeyError ''webDetection'')"
    by code_simp
  have s: "fst (session_run nameless empty_graph) = Inl ClientError" by code_simp
  have u: "fst (upsert_record empty_record []) = Inl (KeyError ''url'')" by code_simp
  have i: "''image'' \<in> set (map fst schema)" "''label'' \<in> set (map fst schema)"
    by (simp_all add: schema_def)
  note T = failed_record_leaves_nothing[where pre = "[harbor]" and dbfile = "[]" and n = 1
      and written = "snd (populateSqlite [harbor] (createSchema []))" and j = labelled
      and e = "KeyError ''webDetection''" and post = "[liberty]"
      and q = nameless and g = empty_graph and ?e1.0 = ClientError
      and jsonData = empty_record and c = "[]" and ?e2.0 = "KeyError ''url''"]
  have c1: "main_sqlite ([harbor] @ labelled # [liberty]) [] =
               (Inl (KeyError ''webDetection''), createSchema []) \<and>
            (\<forall>t \<in> set (map fst schema).
               rows_of (snd (main_sqlite ([harbor] @ labelled # [liberty]) [])) t = [])"
    by (rule T[THEN conjunct1, THEN mp]) (intro conjI p f, simp)
  have c2: "snd (session_run nameless empty_graph) = empty_graph"
    by (rule T[THEN conjunct2, THEN conjunct1, THEN mp]) (intro conjI s, simp)
  have c3: "snd (upsert_record empty_record []) = []"
    by (rule T[THEN conjunct2, THEN conjunct2, THEN mp]) (intro conjI u, simp)
  note r1 = c1[THEN conjunct2, THEN bspec, OF i(1)] and r2 = c1[THEN conjunct2, THEN bspec, OF i(2)]
  show ?thesis by (intro conjI p w f c1[THEN conjunct1] r1 r2 s c2 u c3)
qed

section \<open>The queries across the three stores\<close>

text \<open>
  Claim C1. The comments of \<^verbatim>\<open>queryNeo4j\<close> and \<^verbatim>\<open>queryMongo\<close> say that each query is
  the same as the SQL query of its number. For three images, two of them with a
  landmark, \<^verbatim>\<open>query_1\<close> of SQLite and \<^verbatim>\<open>query_5\<close> of Neo4j list the two images that
  have a landmark; \<^verbatim>\<open>pipeline_1\<close> of MongoDB lists all three, the third with the count
  0: it counts the landmarks of every document, where the other two count the rows of
  a join.
\<close>

theorem query_1_differs_across_backends:
  "fst (populateSqlite [liberty, ellis, harbor] (createSchema [])) = Inr 3 \<and>
   fst (populateNeo4j [liberty, ellis, harbor] True empty_graph) = Inr 3 \<and>
   fst (populateMongo [liberty, ellis, harbor] True []) = Inr 3 \<and>
   query_1 (snd (populateSqlite [liberty, ellis, harbor] (createSchema []))) =
     [(SText ''http://img/ellis.jpg'', 1), (SText ''http://img/liberty.jpg'', 1)] \<and>
   query_5 (snd (populateNeo4j [liberty, ellis, harbor] True empty_graph)) =
     [(JStr ''http://img/ellis.jpg'', 1), (JStr ''http://img/liberty.jpg'', 1)] \<and>
   pipeline_1 (snd (populateMongo [liberty, ellis, harbor] True [])) =
     Inr [(JStr ''http://img/ellis.jpg'', 1), (JStr ''http://img/liberty.jpg'', 1),
          (JStr ''http://img/harbor.jpg'', 0)]"
  by code_simp

text \<open>
  Claim C7. Two landmarks with one description and two \<^verbatim>\<open>mid\<close>s, each with one
  location. \<^verbatim>\<open>query_2\<close> and \<^verbatim>\<open>query_6\<close>, grouped by description, return the
  description with the count 2, and \<^verbatim>\<open>query_9\<close>, grouped by node, returns nothing, as
  the claim says. \<^verbatim>\<open>pipeline_2\<close>, the same query for MongoDB, counts the distinct pairs
  of description and location: it returns the count 2 when the two locations differ
  and nothing when the two landmarks are at one location.
\<close>

theorem pipeline_2_misses_landmarks_at_one_location:
  "map cells (rows_of (snd (populateSqlite statues_together (createSchema []))) ''landmark'') =
     [[(''mid'', SText ''/m/072p8''), (''description'', SText ''Statue of Liberty'')],
      [(''mid'', SText ''/g/11b6''), (''description'', SText ''Statue of Liberty'')]] \<and>
   map cells (rows_of (snd (populateSqlite statues_together (createSchema [])))
      ''landmark_located_at_location'') =
     [[(''landmark_id'', SInt 1), (''location_id'', SInt 1)],
      [(''landmark_id'', SInt 2), (''location_id'', SInt 1)]] \<and>
   query_2 (snd (populateSqlite statues_together (createSchema []))) =
     [(SText ''Statue of Liberty'', 2)] \<and>
   query_6 (snd (populateNeo4j statues_together True empty_graph)) = [(JStr ''Statue of Liberty'', 2)] \<and>
   query_9 (snd (populateNeo4j statues_together True empty_graph)) = [] \<and>
   pipeline_2 (snd (populateMongo statues_together True [])) = [] \<and>
   pipeline_2 (snd (populateMongo statues_apart True [])) = [(JStr ''Statue of Liberty'', 2)]"
  by code_simp


section \<open>Ingesting the same files again\<close>

text \<open>
  Claim C2. \<^verbatim>\<open>populateMongo\<close> finds the document of a record with the filter
  \<^verbatim>\<open>{'url': jsonData['url']}\<close>, which also matches a document whose url is a list that
  holds the value. With a file whose url is a list of one string and a file whose url
  is that string, the first run ends with one document: the second file overwrites the
  url of the document of the first. Run again on that collection
  (\<^verbatim>\<open>clearDb=False\<close>), the first file finds no document and a second one is inserted.
  \<^verbatim>\<open>populateNeo4j\<close> on the same files makes two nodes and changes nothing when it runs
  again.
\<close>

theorem populateMongo_again_adds_document:
  "populateMongo [listed, unlisted] False [] =
     (Inr 1, [\<lparr>oid = 1, doc_fields = [(''url'', JStr ''http://img/a.jpg'')]\<rparr>]) \<and>
   populateMongo [listed, unlisted] False
       [\<lparr>oid = 1, doc_fields = [(''url'', JStr ''http://img/a.jpg'')]\<rparr>] =
     (Inr 2, [\<lparr>oid = 1, doc_fields = [(''url'', JStr ''http://img/a.jpg'')]\<rparr>,
              \<lparr>oid = 2, doc_fields = [(''url'', JArr [JStr ''http://img/a.jpg''])]\<rparr>]) \<and>
   fst (populateNeo4j [listed, unlisted] False empty_graph) = Inr 2 \<and>
   populateNeo4j [listed, unlisted] False (snd (populateNeo4j [listed, unlisted] False empty_graph)) =
     populateNeo4j [listed, unlisted] False empty_graph"
  by code_simp

section \<open>The flag of a document\<close>






































section \<open>Resolving an edge\<close>

text \<open>
  Claim C8. With an ordinary score the code does what the claim says, in Neo4j and in
  SQLite: the record of an image with one label, ingested twice, leaves one edge from
  the image to the label, and ingested again with another score of the label it leaves a
  second edge beside the first. With the score \<^verbatim>\<open>NaN\<close>, which \<^verbatim>\<open>json.load\<close> accepts,
  the edge is not found again: the \<^verbatim>\<open>MERGE\<close> of the relationship compares the score
  with \<open>=\<close>, which is false of \<^verbatim>\<open>NaN\<close> and \<^verbatim>\<open>NaN\<close>, and a second ingestion of the same
  record adds a second relationship with the same ends and the same score.
  \<^verbatim>\<open>getOrCreateRow\<close> inserts the edge with the score \<^verbatim>\<open>NULL\<close> and raises.
\<close>

theorem edge_with_nan_score_is_duplicated:
  "rels_of (snd (populateNeo4j [tagged (JNum (9 / 10))] False
                   (snd (populateNeo4j [tagged (JNum (9 / 10))] True empty_graph)))) ''TAGGED''
     = [(1, [(''score'', JNum (9 / 10))], 2)] \<and>
   rels_of (snd (populateNeo4j [tagged (JNum (1 / 2))] False
                   (snd (populateNeo4j [tagged (JNum (9 / 10))] True empty_graph)))) ''TAGGED''
     = [(1, [(''score'', JNum (9 / 10))], 2), (1, [(''score'', JNum (1 / 2))], 2)] \<and>
   rels_of (snd (populateNeo4j [tagged (JFloat NaN)] True empty_graph)) ''TAGGED''
     = [(1, [(''score'', JFloat NaN)], 2)] \<and>
   fst (populateNeo4j [tagged (JFloat NaN)] False
          (snd (populateNeo4j [tagged (JFloat NaN)] True empty_graph))) = Inr 1 \<and>
   rels_of (snd (populateNeo4j [tagged (JFloat NaN)] False
                   (snd (populateNeo4j [tagged (JFloat NaN)] True empty_graph)))) ''TAGGED''
     = [(1, [(''score'', JFloat NaN)], 2), (1, [(''score'', JFloat NaN)], 2)] \<and>
   map cells (rows_of (snd (populateSqlite [tagged (JNum (9 / 10)), tagged (JNum (9 / 10))]
                              (createSchema []))) ''image_tagged_label'')
     = [[(''image_id'', SInt 1), (''label_id'', SInt 1), (''score'', SReal (Finite (9 / 10)))]] \<and>
   map cells (rows_of (snd (populateSqlite [tagged (JNum (9 / 10)), tagged (JNum (1 / 2))]
                              (createSchema []))) ''image_tagged_label'')
     = [[(''image_id'', SInt 1), (''label_id'', SInt 1), (''score'', SReal (Finite (9 / 10)))],
        [(''image_id'', SInt 1), (''label_id'', SInt 1), (''score'', SReal (Finite (1 / 2)))]] \<and>
   fst (populateSqlite [tagged (JFloat NaN)] (createSchema []))
     = Inl (SomethingWentWrong
              [(''image_id'', JInt 1), (''label_id'', JInt 1), (''score'', JFloat NaN)])"
  by code_simp

end
